theory Spec2Isabelle
  imports Complex_Main "HOL-Library.Sublist" "HOL-Library.AList" "HOL-Library.Log_Nat"
begin

section \<open>Python values and exceptions\<close>

text \<open>
  A Python \<open>str\<close> is a sequence of Unicode code points; it is modelled as a list of
  code points, so that \<open>len\<close> and the substring test \<open>in\<close> count what Python counts.
  Literals of the source are written as their code points.
  A Python \<open>float\<close> is given by the real number it denotes (no NaN, no infinity); the
  arithmetic on floats rounds, and is an operation of the runtime.
\<close>

type_synonym ustr = "nat list"

datatype pyexc =
    re_error
  | ValueError ustr
  | KeyError string
  | ZeroDivisionError
  | OverflowError
  | Exception ustr
  | OtherError nat

section \<open>Backend invoker: app/core/llm/base.py\<close>

text \<open>
  A prompt is a formatted string in the source. Nothing in the engine inspects the text of a
  prompt; the model keeps the values each template interpolates and names the template by a
  constructor.
\<close>

datatype prompt =
    TaskPrompt ustr ustr ustr "(ustr \<times> string) list" "(ustr \<times> string) list"
  | OptimizationPrompt ustr ustr ustr real ustr
  | ScoringPrompt ustr ustr real
  | HelloPrompt

record GenerationResult =
  result_text :: ustr
  tokens_used :: int

text \<open>
  The effects of the invoker are recorded in a log: every call of the single-shot
  \<open>generate\<close> with the exception it raised (or \<open>None\<close>), and every backoff sleep with
  its duration.
\<close>

datatype event =
    Call prompt "nat option" "pyexc option"
  | Sleep nat

record 'b LLM =
  llm_max_retries :: nat
  is_loaded :: bool
  total_tokens_used :: int
  total_requests :: int
  backend :: 'b
  trace :: "event list"

text \<open>
  The concrete generation backend is an external collaborator: a transition function on an
  opaque backend state that answers a prompt (with the optional \<open>max_tokens\<close>) by a result
  or by an exception.
\<close>

type_synonym 'b transport = "'b \<Rightarrow> prompt \<Rightarrow> nat option \<Rightarrow> (pyexc + GenerationResult) \<times> 'b"

definition update_token_usage :: "int \<Rightarrow> 'b LLM \<Rightarrow> 'b LLM" where
  "update_token_usage n l =
     l\<lparr>total_tokens_used := total_tokens_used l + n, total_requests := total_requests l + 1\<rparr>"

text \<open>
  \<open>generate\<close> is abstract in \<open>LLMBase\<close>. Both subclasses of the repository call their
  client and, when it answers, \<open>_update_token_usage\<close> before returning the result.
\<close>

definition generate :: "'b transport \<Rightarrow> prompt \<Rightarrow> nat option \<Rightarrow> 'b LLM \<Rightarrow> (pyexc + GenerationResult) \<times> 'b LLM" where
  "generate T p mt l =
     (case T (backend l) p mt of
        (Inl e, b) \<Rightarrow> (Inl e, l\<lparr>backend := b, trace := trace l @ [Call p mt (Some e)]\<rparr>)
      | (Inr r, b) \<Rightarrow>
          (Inr r, update_token_usage (tokens_used r)
                    (l\<lparr>backend := b, trace := trace l @ [Call p mt None]\<rparr>)))"

definition sleep :: "nat \<Rightarrow> 'b LLM \<Rightarrow> 'b LLM" where
  "sleep d l = l\<lparr>trace := trace l @ [Sleep d]\<rparr>"

definition msg_generation_failed :: ustr where
  "msg_generation_failed = [29983, 25104, 22833, 36133]"

text \<open>
  The loop \<open>for attempt in range(self.config.max_retries + 1)\<close> of
  \<open>generate_with_retry\<close>: recursion over the attempts still to make, with
  \<open>last_exception\<close> as an accumulator. After the loop,
  \<open>raise last_exception or Exception(...)\<close>.
\<close>

fun retry_loop :: "'b transport \<Rightarrow> prompt \<Rightarrow> nat option \<Rightarrow> pyexc option \<Rightarrow> nat list \<Rightarrow> 'b LLM
    \<Rightarrow> (pyexc + GenerationResult) \<times> 'b LLM" where
  "retry_loop T p mt last_exception [] l =
     (case last_exception of
        Some e \<Rightarrow> (Inl e, l)
      | None \<Rightarrow> (Inl (Exception msg_generation_failed), l))"
| "retry_loop T p mt last_exception (attempt # rest) l =
     (case generate T p mt l of
        (Inr r, l') \<Rightarrow> (Inr r, l')
      | (Inl e, l') \<Rightarrow>
          retry_loop T p mt (Some e) rest
            (if attempt < llm_max_retries l' then sleep (2 ^ attempt) l' else l'))"

definition generate_with_retry :: "'b transport \<Rightarrow> prompt \<Rightarrow> nat option \<Rightarrow> 'b LLM
    \<Rightarrow> (pyexc + GenerationResult) \<times> 'b LLM" where
  "generate_with_retry T p mt l = retry_loop T p mt None [0 ..< llm_max_retries l + 1] l"

text \<open>
  Readings of the log: the calls, the calls that raised, the calls that ask for an output
  of the task (the other prompts ask for a score, a better task description or a sign of
  life), and the durations of the sleeps in order.
\<close>

fun is_call :: "event \<Rightarrow> bool" where
  "is_call (Call p mt x) = True"
| "is_call (Sleep d) = False"

fun is_failed_call :: "event \<Rightarrow> bool" where
  "is_failed_call (Call p mt x) = (x \<noteq> None)"
| "is_failed_call (Sleep d) = False"

fun is_generation :: "event \<Rightarrow> bool" where
  "is_generation (Call (TaskPrompt d i c ics ocs) mt x) = True"
| "is_generation ev = False"

fun sleeps_of :: "event list \<Rightarrow> nat list" where
  "sleeps_of [] = []"
| "sleeps_of (Call p mt x # evs) = sleeps_of evs"
| "sleeps_of (Sleep d # evs) = d # sleeps_of evs"

section \<open>Constraint validator: app/core/constraint/input.py\<close>

text \<open>
  The values a constraint is checked against are the values a decoded request carries:
  \<open>None\<close>, booleans, integers, floats, strings, lists and dictionaries with string keys.
\<close>

datatype pyval =
    PNone
  | PBool bool
  | PInt int
  | PFloat real
  | PStr ustr
  | PList "pyval list"
  | PDict "(ustr \<times> pyval) list"

datatype pytype = T_str | T_int | T_float | T_bool | T_list | T_dict

text \<open>\<open>isinstance\<close>: in Python \<open>bool\<close> is a subclass of \<open>int\<close>.\<close>

fun isinstance :: "pyval \<Rightarrow> pytype \<Rightarrow> bool" where
  "isinstance (PStr s) T_str = True"
| "isinstance (PBool b) T_bool = True"
| "isinstance (PBool b) T_int = True"
| "isinstance (PInt i) T_int = True"
| "isinstance (PFloat r) T_float = True"
| "isinstance (PList xs) T_list = True"
| "isinstance (PDict kvs) T_dict = True"
| "isinstance v t = False"

text \<open>\<open>type(v)\<close>, for the values that are not \<open>None\<close>.\<close>

fun type_of :: "pyval \<Rightarrow> pytype option" where
  "type_of PNone = None"
| "type_of (PBool b) = Some T_bool"
| "type_of (PInt i) = Some T_int"
| "type_of (PFloat r) = Some T_float"
| "type_of (PStr s) = Some T_str"
| "type_of (PList xs) = Some T_list"
| "type_of (PDict kvs) = Some T_dict"

text \<open>\<open>len\<close>, for the values that have \<open>__len__\<close>.\<close>

fun py_len :: "pyval \<Rightarrow> int option" where
  "py_len (PStr s) = Some (int (length s))"
| "py_len (PList xs) = Some (int (length xs))"
| "py_len (PDict kvs) = Some (int (length kvs))"
| "py_len v = None"

text \<open>The numeric value of an \<open>int\<close>, \<open>bool\<close> or \<open>float\<close>.\<close>

fun py_num :: "pyval \<Rightarrow> real option" where
  "py_num (PBool b) = Some (if b then 1 else 0)"
| "py_num (PInt i) = Some (of_int i)"
| "py_num (PFloat r) = Some r"
| "py_num v = None"

text \<open>
  Python's \<open>==\<close>: numbers compare by value across \<open>bool\<close>, \<open>int\<close> and \<open>float\<close>, lists
  element by element, dictionaries as sets of items.
\<close>

fun py_eq :: "pyval \<Rightarrow> pyval \<Rightarrow> bool"
  and py_eq_list :: "pyval list \<Rightarrow> pyval list \<Rightarrow> bool"
  and py_items_in :: "(ustr \<times> pyval) list \<Rightarrow> (ustr \<times> pyval) list \<Rightarrow> bool"
  and py_item_in :: "ustr \<Rightarrow> pyval \<Rightarrow> (ustr \<times> pyval) list \<Rightarrow> bool" where
  "py_eq PNone w = (w = PNone)"
| "py_eq (PBool b) w = (py_num w = Some (if b then 1 else 0))"
| "py_eq (PInt i) w = (py_num w = Some (of_int i))"
| "py_eq (PFloat r) w = (py_num w = Some r)"
| "py_eq (PStr s) w = (w = PStr s)"
| "py_eq (PList xs) w = (case w of PList ys \<Rightarrow> py_eq_list xs ys | _ \<Rightarrow> False)"
| "py_eq (PDict kvs) w =
     (case w of PDict kws \<Rightarrow> length kvs = length kws \<and> py_items_in kvs kws | _ \<Rightarrow> False)"
| "py_eq_list [] ys = (ys = [])"
| "py_eq_list (x # xs) ys = (case ys of [] \<Rightarrow> False | y # ys' \<Rightarrow> py_eq x y \<and> py_eq_list xs ys')"
| "py_items_in [] kws = True"
| "py_items_in ((k, v) # kvs) kws = (py_item_in k v kws \<and> py_items_in kvs kws)"
| "py_item_in k v [] = False"
| "py_item_in k v ((k', w) # kws) = (if k = k' then py_eq v w else py_item_in k v kws)"

text \<open>
  What the engine takes from the Python runtime: the regular-expression matcher
  \<open>re.match\<close> (whether the pattern matches, or the exception it raises: \<open>re.error\<close> for a
  malformed pattern, and others such as \<open>OverflowError\<close> for a repetition count too large),
  \<open>str\<close> on a value, \<open>str.lower\<close>, \<open>str.strip\<close>, \<open>str.split\<close>, the parser
  \<open>float\<close> (\<open>None\<close> for its \<open>ValueError\<close>), and the double-precision operations
  \<open>+\<close>, \<open>*\<close> and \<open>/\<close> on floats, each of which rounds its exact result.
\<close>

record pyenv =
  re_match :: "ustr \<Rightarrow> ustr \<Rightarrow> pyexc + bool"
  str_of :: "pyval \<Rightarrow> ustr"
  lower :: "ustr \<Rightarrow> ustr"
  strip :: "ustr \<Rightarrow> ustr"
  split :: "ustr \<Rightarrow> ustr list"
  parse_float :: "ustr \<Rightarrow> real option"
  float_add :: "real \<Rightarrow> real \<Rightarrow> real"
  float_mul :: "real \<Rightarrow> real \<Rightarrow> real"
  float_div :: "real \<Rightarrow> real \<Rightarrow> real"

definition ustr_of :: "string \<Rightarrow> ustr" where
  "ustr_of s = map of_char s"

text \<open>
  A numeric bound is an \<open>int\<close> or a \<open>float\<close> (\<open>Union[int, float]\<close>); the two compare by
  value and print differently.
\<close>

datatype number = IntNum int | FloatNum real

fun num_value :: "number \<Rightarrow> real" where
  "num_value (IntNum i) = of_int i"
| "num_value (FloatNum r) = r"

fun num_pyval :: "number \<Rightarrow> pyval" where
  "num_pyval (IntNum i) = PInt i"
| "num_pyval (FloatNum r) = PFloat r"

record InputTypeConstraint =
  name :: ustr
  data_type :: string
  required :: bool
  min_length :: "int option"
  max_length :: "int option"
  pattern :: "ustr option"
  allowed_values :: "pyval list option"
  min_value :: "number option"
  max_value :: "number option"

definition type_map :: "(string \<times> pytype list) list" where
  "type_map =
     [(''string'', [T_str]),
      (''integer'', [T_int]),
      (''float'', [T_int, T_float]),
      (''boolean'', [T_bool]),
      (''array'', [T_list]),
      (''object'', [T_dict]),
      (''image'', [T_str]),
      (''audio'', [T_str]),
      (''video'', [T_str]),
      (''file'', [T_str]),
      (''url'', [T_str]),
      (''email'', [T_str]),
      (''phone'', [T_str])]"

definition check_type :: "InputTypeConstraint \<Rightarrow> pyval \<Rightarrow> bool" where
  "check_type c data =
     (case map_of type_map (data_type c) of
        None \<Rightarrow> True
      | Some expected_type \<Rightarrow> list_ex (isinstance data) expected_type)"

definition check_length :: "InputTypeConstraint \<Rightarrow> pyval \<Rightarrow> bool" where
  "check_length c data =
     (case py_len data of
        None \<Rightarrow> True
      | Some len \<Rightarrow>
          if (case min_length c of Some m \<Rightarrow> len < m | None \<Rightarrow> False) then False
          else if (case max_length c of Some m \<Rightarrow> len > m | None \<Rightarrow> False) then False
          else True)"

text \<open>
  \<open>_check_pattern\<close> catches \<open>re.error\<close> only; any other exception of the matcher leaves
  the function.
\<close>

definition check_pattern :: "pyenv \<Rightarrow> InputTypeConstraint \<Rightarrow> pyval \<Rightarrow> pyexc + bool" where
  "check_pattern E c data =
     (case pattern c of
        None \<Rightarrow> Inr True
      | Some p \<Rightarrow>
          if p = [] then Inr True
          else (case data of
                  PStr s \<Rightarrow>
                    (case re_match E p s of
                       Inr m \<Rightarrow> Inr m
                     | Inl e \<Rightarrow> if e = re_error then Inr False else Inl e)
                | _ \<Rightarrow> Inr True))"

definition check_value_range :: "InputTypeConstraint \<Rightarrow> pyval \<Rightarrow> bool" where
  "check_value_range c data =
     (case py_num data of
        None \<Rightarrow> True
      | Some x \<Rightarrow>
          if (case min_value c of Some m \<Rightarrow> x < num_value m | None \<Rightarrow> False) then False
          else if (case max_value c of Some m \<Rightarrow> x > num_value m | None \<Rightarrow> False) then False
          else True)"

definition check_allowed_values :: "InputTypeConstraint \<Rightarrow> pyval \<Rightarrow> bool" where
  "check_allowed_values c data =
     (case allowed_values c of
        None \<Rightarrow> True
      | Some vs \<Rightarrow> if vs = [] then True else list_ex (\<lambda>x. py_eq x data) vs)"

text \<open>The body of \<open>validate\<close> inside its \<open>try\<close>, then \<open>validate\<close> with its handler.\<close>

definition validate_body :: "pyenv \<Rightarrow> InputTypeConstraint \<Rightarrow> pyval \<Rightarrow> pyexc + bool" where
  "validate_body E c data =
     (if required c \<and> data = PNone then Inr False
      else if data = PNone then Inr True
      else if \<not> check_type c data then Inr False
      else if \<not> check_length c data then Inr False
      else (case check_pattern E c data of
              Inl e \<Rightarrow> Inl e
            | Inr ok \<Rightarrow>
                if \<not> ok then Inr False
                else if \<not> check_value_range c data then Inr False
                else if \<not> check_allowed_values c data then Inr False
                else Inr True))"

definition validate :: "pyenv \<Rightarrow> InputTypeConstraint \<Rightarrow> pyval \<Rightarrow> pyexc + bool" where
  "validate E c data =
     (case validate_body E c data of
        Inr b \<Rightarrow> Inr b
      | Inl e \<Rightarrow> Inr False)"

text \<open>
  The literals of the error messages, as code points:
  \<open>lit_field\<close> ("field ") starts every message and the others follow the field name.
\<close>

definition lit_field :: ustr where "lit_field = [23383, 27573, 32]"
definition lit_required :: ustr where "lit_required = [32, 26159, 24517, 38656, 30340]"
definition lit_type_error :: ustr where
  "lit_type_error = [32, 31867, 22411, 38169, 35823, 65292, 26399, 26395, 32]"
definition lit_length_in :: ustr where "lit_length_in = [32, 38271, 24230, 24212, 22312, 32]"
definition lit_between :: ustr where "lit_between = [32, 20043, 38388]"
definition lit_length_min :: ustr where
  "lit_length_min = [32, 38271, 24230, 24212, 19981, 23569, 20110, 32]"
definition lit_length_max :: ustr where
  "lit_length_max = [32, 38271, 24230, 24212, 19981, 36229, 36807, 32]"
definition lit_format :: ustr where "lit_format = [32, 26684, 24335, 19981, 27491, 30830]"
definition lit_value_in :: ustr where "lit_value_in = [32, 20540, 24212, 22312, 32]"
definition lit_value_min :: ustr where "lit_value_min = [32, 20540, 24212, 19981, 23569, 20110, 32]"
definition lit_value_max :: ustr where "lit_value_max = [32, 20540, 24212, 19981, 36229, 36807, 32]"
definition lit_value_one_of :: ustr where "lit_value_one_of = [32, 20540, 24212, 20026, 58, 32]"
definition lit_failed :: ustr where "lit_failed = [32, 39564, 35777, 22833, 36133]"

text \<open>\<open>sep.join(parts)\<close>.\<close>

fun join :: "ustr \<Rightarrow> ustr list \<Rightarrow> ustr" where
  "join sep [] = []"
| "join sep [x] = x"
| "join sep (x # y # ys) = x @ sep @ join sep (y # ys)"

text \<open>Truthiness of an optional number: \<open>None\<close> and zero are false.\<close>

definition truthy_int :: "int option \<Rightarrow> bool" where
  "truthy_int x = (case x of None \<Rightarrow> False | Some n \<Rightarrow> n \<noteq> 0)"

definition truthy_num :: "number option \<Rightarrow> bool" where
  "truthy_num x = (case x of None \<Rightarrow> False | Some n \<Rightarrow> num_value n \<noteq> 0)"

definition fmt_int :: "pyenv \<Rightarrow> int option \<Rightarrow> ustr" where
  "fmt_int E x = (case x of None \<Rightarrow> str_of E PNone | Some n \<Rightarrow> str_of E (PInt n))"

definition fmt_num :: "pyenv \<Rightarrow> number option \<Rightarrow> ustr" where
  "fmt_num E x = (case x of None \<Rightarrow> str_of E PNone | Some n \<Rightarrow> str_of E (num_pyval n))"

text \<open>
  \<open>get_error_message\<close> after its first line, read from the last check upwards: each
  definition is one \<open>if\<close> of the source followed by the rest of the function, so that an
  inner \<open>if/elif\<close> chain with no branch taken falls through to the next check.
  In \<open>message_allowed\<close> the list is present whenever the check has failed.
\<close>

definition message_allowed :: "pyenv \<Rightarrow> InputTypeConstraint \<Rightarrow> pyval \<Rightarrow> ustr" where
  "message_allowed E c data =
     (if \<not> check_allowed_values c data then
        lit_field @ name c @ lit_value_one_of
          @ join (ustr_of '', '') (map (str_of E) (case allowed_values c of Some vs \<Rightarrow> vs | None \<Rightarrow> []))
      else lit_field @ name c @ lit_failed)"

definition message_value_range :: "pyenv \<Rightarrow> InputTypeConstraint \<Rightarrow> pyval \<Rightarrow> ustr" where
  "message_value_range E c data =
     (if \<not> check_value_range c data then
        (if truthy_num (min_value c) \<and> truthy_num (max_value c) then
           lit_field @ name c @ lit_value_in @ fmt_num E (min_value c) @ ustr_of ''-''
             @ fmt_num E (max_value c) @ lit_between
         else if truthy_num (min_value c) then
           lit_field @ name c @ lit_value_min @ fmt_num E (min_value c)
         else if truthy_num (max_value c) then
           lit_field @ name c @ lit_value_max @ fmt_num E (max_value c)
         else message_allowed E c data)
      else message_allowed E c data)"

definition message_pattern :: "pyenv \<Rightarrow> InputTypeConstraint \<Rightarrow> pyval \<Rightarrow> pyexc + ustr" where
  "message_pattern E c data =
     (case check_pattern E c data of
        Inl e \<Rightarrow> Inl e
      | Inr ok \<Rightarrow>
          if \<not> ok then Inr (lit_field @ name c @ lit_format)
          else Inr (message_value_range E c data))"

definition message_length :: "pyenv \<Rightarrow> InputTypeConstraint \<Rightarrow> pyval \<Rightarrow> pyexc + ustr" where
  "message_length E c data =
     (if \<not> check_length c data then
        (if truthy_int (min_length c) \<and> truthy_int (max_length c) then
           Inr (lit_field @ name c @ lit_length_in @ fmt_int E (min_length c) @ ustr_of ''-''
                  @ fmt_int E (max_length c) @ lit_between)
         else if truthy_int (min_length c) then
           Inr (lit_field @ name c @ lit_length_min @ fmt_int E (min_length c))
         else if truthy_int (max_length c) then
           Inr (lit_field @ name c @ lit_length_max @ fmt_int E (max_length c))
         else message_pattern E c data)
      else message_pattern E c data)"

definition get_error_message :: "pyenv \<Rightarrow> InputTypeConstraint \<Rightarrow> pyval \<Rightarrow> pyexc + ustr option" where
  "get_error_message E c data =
     (case validate E c data of
        Inl e \<Rightarrow> Inl e
      | Inr valid \<Rightarrow>
          if valid then Inr None
          else if required c \<and> data = PNone then Inr (Some (lit_field @ name c @ lit_required))
          else if \<not> check_type c data then
            Inr (Some (lit_field @ name c @ lit_type_error @ ustr_of (data_type c)))
          else map_sum id Some (message_length E c data))"

subsection \<open>InputConstraintSet\<close>

text \<open>
  The data of a constraint set is a dictionary, an association list here; \<open>data.get(k)\<close>
  is \<open>None\<close> for an absent key. The result dictionary of \<open>validate\<close> keeps one entry per
  name, a later constraint of the same name overwriting the entry.
\<close>

definition dict_get :: "(ustr \<times> pyval) list \<Rightarrow> ustr \<Rightarrow> pyval" where
  "dict_get d k = (case map_of d k of None \<Rightarrow> PNone | Some v \<Rightarrow> v)"

fun set_validate :: "pyenv \<Rightarrow> InputTypeConstraint list \<Rightarrow> (ustr \<times> pyval) list \<Rightarrow> (ustr \<times> bool) list
    \<Rightarrow> pyexc + (ustr \<times> bool) list" where
  "set_validate E [] d results = Inr results"
| "set_validate E (c # cs) d results =
     (case validate E c (dict_get d (name c)) of
        Inl e \<Rightarrow> Inl e
      | Inr b \<Rightarrow> set_validate E cs d (AList.update (name c) b results))"

fun get_all_errors :: "pyenv \<Rightarrow> InputTypeConstraint list \<Rightarrow> (ustr \<times> pyval) list \<Rightarrow> ustr list
    \<Rightarrow> pyexc + ustr list" where
  "get_all_errors E [] d errors = Inr errors"
| "get_all_errors E (c # cs) d errors =
     (case get_error_message E c (dict_get d (name c)) of
        Inl e \<Rightarrow> Inl e
      | Inr error_msg \<Rightarrow>
          get_all_errors E cs d
            (case error_msg of
               None \<Rightarrow> errors
             | Some m \<Rightarrow> if m \<noteq> [] then errors @ [m] else errors))"

definition is_valid :: "pyenv \<Rightarrow> InputTypeConstraint list \<Rightarrow> (ustr \<times> pyval) list \<Rightarrow> pyexc + bool" where
  "is_valid E cs d = map_sum id (list_all snd) (set_validate E cs d [])"

section \<open>Quality criterion: app/core/constraint/criterion.py\<close>

record CriterionMetric =
  metric_name :: ustr
  metric_description :: ustr
  weight :: real
  threshold :: real

record OutputCriterion =
  criterion_name :: ustr
  criterion_description :: ustr
  criteria :: "CriterionMetric list"
  weights :: "ustr \<rightharpoonup> real"
  min_score :: real
  criterion_max_retries :: nat

text \<open>
  \<open>OutputCriterion\<close> is a pydantic \<open>BaseModel\<close>: its constructor checks and stores the
  fields it is given. \<open>__post_init__\<close> is the hook of a dataclass; \<open>BaseModel\<close> does not
  call it and no code of the repository does, so it is a function of its own here.
\<close>

definition OutputCriterion_new :: "ustr \<Rightarrow> ustr \<Rightarrow> CriterionMetric list \<Rightarrow> (ustr \<rightharpoonup> real) \<Rightarrow> real \<Rightarrow> nat
    \<Rightarrow> OutputCriterion" where
  "OutputCriterion_new n d cs ws ms mr =
     \<lparr>criterion_name = n, criterion_description = d, criteria = cs, weights = ws,
      min_score = ms, criterion_max_retries = mr\<rparr>"

text \<open>
  The table \<open>common_metrics\<close>, in the order of the source: accuracy, completeness,
  relevance, consistency, clarity, professionalism, novelty, usefulness.
\<close>

definition common_metrics :: "(ustr \<times> ustr) list" where
  "common_metrics =
     [([20934, 30830, 24615], [36755, 20986, 20869, 23481, 26159, 21542, 20934, 30830, 26080, 35823]),
      ([23436, 25972, 24615], [36755, 20986, 20869, 23481, 26159, 21542, 23436, 25972]),
      ([30456, 20851, 24615], [36755, 20986, 20869, 23481, 26159, 21542, 19982, 36755, 20837, 30456, 20851]),
      ([19968, 33268, 24615], [36755, 20986, 20869, 23481, 26159, 21542, 19968, 33268]),
      ([28165, 26224, 24230], [36755, 20986, 20869, 23481, 26159, 21542, 28165, 26224, 26131, 25026]),
      ([19987, 19994, 24615], [36755, 20986, 20869, 23481, 26159, 21542, 19987, 19994]),
      ([21019, 26032, 24615], [36755, 20986, 20869, 23481, 26159, 21542, 26377, 21019, 26032, 24615]),
      ([23454, 29992, 24615], [36755, 20986, 20869, 23481, 26159, 21542, 23454, 29992])]"

definition default_metric :: CriterionMetric where
  "default_metric =
     \<lparr>metric_name = [24635, 20307, 36136, 37327],
      metric_description = [25972, 20307, 36755, 20986, 36136, 37327, 35780, 20272],
      weight = 1, threshold = 0.8\<rparr>"

definition extract_criteria_from_description :: "pyenv \<Rightarrow> OutputCriterion \<Rightarrow> CriterionMetric list" where
  "extract_criteria_from_description E crit =
     (let description_lower = lower E (criterion_description crit);
          found = map (\<lambda>(mname, mdesc).
                         \<lparr>metric_name = mname, metric_description = mdesc,
                          weight = 1, threshold = 0.8\<rparr>)
                    (filter (\<lambda>(mname, mdesc).
                               list_ex (\<lambda>keyword. sublist keyword description_lower)
                                 (split E (lower E mname)))
                       common_metrics)
      in if found = [] then [default_metric] else found)"

definition post_init :: "pyenv \<Rightarrow> OutputCriterion \<Rightarrow> OutputCriterion" where
  "post_init E crit =
     (if criteria crit = [] then crit\<lparr>criteria := extract_criteria_from_description E crit\<rparr>
      else crit)"

text \<open>
  The keywords of \<open>_simple_evaluation\<close>: the metric names for accuracy, completeness,
  relevance and clarity, and the four words that mark an error in the output.
\<close>

definition kw_accuracy :: ustr where "kw_accuracy = [20934, 30830, 24615]"
definition kw_completeness :: ustr where "kw_completeness = [23436, 25972, 24615]"
definition kw_relevance :: ustr where "kw_relevance = [30456, 20851, 24615]"
definition kw_clarity :: ustr where "kw_clarity = [28165, 26224, 24230]"

definition error_keywords :: "ustr list" where
  "error_keywords = [[38169, 35823], [22833, 36133], [26080, 25928], [19981, 27491, 30830]]"

definition simple_evaluation :: "pyenv \<Rightarrow> CriterionMetric \<Rightarrow> pyval \<Rightarrow> real" where
  "simple_evaluation E criterion output =
     (case output of
        PStr s \<Rightarrow>
          (let output_lower = lower E s in
           if sublist kw_accuracy (metric_name criterion) then
             (if list_ex (\<lambda>keyword. sublist keyword output_lower) error_keywords then 0.3 else 0.8)
           else if sublist kw_completeness (metric_name criterion) then
             (if length s < 10 then 0.4 else if length s > 100 then 0.9 else 0.7)
           else if sublist kw_relevance (metric_name criterion) then 0.7
           else if sublist kw_clarity (metric_name criterion) then
             (if length (split E s) > 5 then 0.8 else 0.6)
           else 0.7)
      | _ \<Rightarrow> 0.5)"

text \<open>
  \<open>_llm_evaluation\<close>: every exception of the backend call and the \<open>ValueError\<close> of
  \<open>float\<close> give 0.5; a parsed score is clamped into [0, 1].
\<close>

definition llm_evaluation :: "pyenv \<Rightarrow> 'b transport \<Rightarrow> OutputCriterion \<Rightarrow> CriterionMetric \<Rightarrow> pyval \<Rightarrow> 'b LLM
    \<Rightarrow> real \<times> 'b LLM" where
  "llm_evaluation E T crit criterion output l =
     (case generate T (ScoringPrompt (metric_description criterion) (str_of E output) (min_score crit))
             (Some 10) l of
        (Inl e, l') \<Rightarrow> (0.5, l')
      | (Inr response, l') \<Rightarrow>
          (case parse_float E (strip E (result_text response)) of
             None \<Rightarrow> (0.5, l')
           | Some score \<Rightarrow> (max 0 (min 1 score), l')))"

text \<open>
  \<open>_evaluate_criterion\<close>; neither branch raises, so its handler (0.5) is never entered.
\<close>

definition evaluate_criterion :: "pyenv \<Rightarrow> 'b transport \<Rightarrow> OutputCriterion \<Rightarrow> CriterionMetric \<Rightarrow> pyval
    \<Rightarrow> 'b LLM option \<Rightarrow> real \<times> 'b LLM option" where
  "evaluate_criterion E T crit criterion output llm =
     (case llm of
        None \<Rightarrow> (simple_evaluation E criterion output, None)
      | Some l \<Rightarrow> (case llm_evaluation E T crit criterion output l of (score, l') \<Rightarrow> (score, Some l')))"

definition metric_weight :: "OutputCriterion \<Rightarrow> CriterionMetric \<Rightarrow> real" where
  "metric_weight crit criterion =
     (case weights crit (metric_name criterion) of Some w \<Rightarrow> w | None \<Rightarrow> weight criterion)"

text \<open>
  The loop of \<open>evaluate\<close>, with \<open>total_score\<close> and \<open>total_weight\<close> as accumulators,
  both floats: every \<open>+\<close>, \<open>*\<close> and \<open>/\<close> is the rounding operation of the runtime.
  Nothing in the loop raises, so the handler of \<open>evaluate\<close> (0.0) is never entered.
\<close>

fun evaluate_loop :: "pyenv \<Rightarrow> 'b transport \<Rightarrow> OutputCriterion \<Rightarrow> pyval \<Rightarrow> CriterionMetric list
    \<Rightarrow> real \<Rightarrow> real \<Rightarrow> 'b LLM option \<Rightarrow> (real \<times> real) \<times> 'b LLM option" where
  "evaluate_loop E T crit output [] total_score total_weight llm = ((total_score, total_weight), llm)"
| "evaluate_loop E T crit output (criterion # rest) total_score total_weight llm =
     (case evaluate_criterion E T crit criterion output llm of
        (score, llm') \<Rightarrow>
          evaluate_loop E T crit output rest
            (float_add E total_score (float_mul E score (metric_weight crit criterion)))
            (float_add E total_weight (metric_weight crit criterion)) llm')"

definition evaluate :: "pyenv \<Rightarrow> 'b transport \<Rightarrow> OutputCriterion \<Rightarrow> pyval \<Rightarrow> 'b LLM option
    \<Rightarrow> real \<times> 'b LLM option" where
  "evaluate E T crit output llm =
     (if criteria crit = [] then (0.5, llm)
      else (case evaluate_loop E T crit output (criteria crit) 0 0 llm of
              ((total_score, total_weight), llm') \<Rightarrow>
                (if total_weight > 0 then float_div E total_score total_weight else 0, llm')))"

text \<open>
  The per-metric scores of one evaluation, in the order of the metrics, each obtained in
  the backend state the previous one left.
\<close>

fun metric_scores :: "pyenv \<Rightarrow> 'b transport \<Rightarrow> OutputCriterion \<Rightarrow> pyval \<Rightarrow> CriterionMetric list
    \<Rightarrow> 'b LLM option \<Rightarrow> real list" where
  "metric_scores E T crit output [] llm = []"
| "metric_scores E T crit output (criterion # rest) llm =
     (case evaluate_criterion E T crit criterion output llm of
        (score, llm') \<Rightarrow> score # metric_scores E T crit output rest llm')"

section \<open>Agent execution engine: app/core/agent/base.py\<close>

datatype AgentStatus = IDLE | BUSY | ERROR | OFFLINE

record AgentConfig =
  agent_name :: ustr
  agent_description :: ustr
  input_constraints :: "InputTypeConstraint list"
  output_constraints :: "InputTypeConstraint list"
  output_criterion :: OutputCriterion
  max_retries :: nat
  timeout :: int
  enable_auto_optimization :: bool

record ExecutionRecord =
  record_timestamp :: real
  record_input :: pyval
  record_output :: ustr
  quality_score :: real
  response_time :: real
  record_retry_count :: nat
  record_tokens_used :: int

text \<open>
  \<open>performance_metrics\<close> is a dictionary from key strings to numbers. Reading a key that
  is absent raises \<open>KeyError\<close>; dividing by zero raises \<open>ZeroDivisionError\<close>.
\<close>

type_synonym metrics = "string \<rightharpoonup> real"

record 'b AgentBase =
  config :: AgentConfig
  llm :: "'b LLM"
  status :: AgentStatus
  retry_count :: nat
  execution_history :: "ExecutionRecord list"
  performance_metrics :: metrics

definition AgentBase_init :: "AgentConfig \<Rightarrow> 'b LLM \<Rightarrow> 'b AgentBase" where
  "AgentBase_init cfg l =
     \<lparr>config = cfg, llm = l, status = IDLE, retry_count = 0, execution_history = [],
      performance_metrics =
        [''total_executions'' \<mapsto> 0,
         ''successful_executions'' \<mapsto> 0,
         ''average_score'' \<mapsto> 0,
         ''average_response_time'' \<mapsto> 0]\<rparr>"

definition reset_token_usage :: "'b LLM \<Rightarrow> 'b LLM" where
  "reset_token_usage l = l\<lparr>total_tokens_used := 0, total_requests := 0\<rparr>"

definition reset_metrics :: "'b AgentBase \<Rightarrow> 'b AgentBase" where
  "reset_metrics a =
     a\<lparr>performance_metrics :=
         [''total_executions'' \<mapsto> 0,
          ''successful_executions'' \<mapsto> 0,
          ''average_score'' \<mapsto> 0,
          ''average_response_time'' \<mapsto> 0,
          ''total_tokens_used'' \<mapsto> 0,
          ''average_tokens_per_execution'' \<mapsto> 0],
       execution_history := [],
       llm := reset_token_usage (llm a)\<rparr>"

definition item :: "metrics \<Rightarrow> string \<Rightarrow> pyexc + real" where
  "item m k = (case m k of None \<Rightarrow> Inl (KeyError k) | Some v \<Rightarrow> Inr v)"

definition py_div :: "real \<Rightarrow> real \<Rightarrow> pyexc + real" where
  "py_div x y = (if y = 0 then Inl ZeroDivisionError else Inr (x / y))"

text \<open>
  \<open>_update_performance_metrics\<close>, read from its last block upwards; the dictionary is
  changed in place, so the assignments made before an exception stay.
\<close>

definition update_token_metrics :: "int \<Rightarrow> real \<Rightarrow> metrics \<Rightarrow> (pyexc + unit) \<times> metrics" where
  "update_token_metrics tokens total_executions m =
     (case item m ''total_tokens_used'' of
        Inl e \<Rightarrow> (Inl e, m)
      | Inr t \<Rightarrow>
          (let m1 = m(''total_tokens_used'' \<mapsto> t + of_int tokens) in
           case py_div (t + of_int tokens) total_executions of
             Inl e \<Rightarrow> (Inl e, m1)
           | Inr avg \<Rightarrow> (Inr (), m1(''average_tokens_per_execution'' \<mapsto> avg))))"

definition update_average :: "string \<Rightarrow> real \<Rightarrow> real \<Rightarrow> metrics \<Rightarrow> (pyexc + unit) \<times> metrics" where
  "update_average key x total_executions m =
     (case item m key of
        Inl e \<Rightarrow> (Inl e, m)
      | Inr current_avg \<Rightarrow>
          (case py_div (current_avg * (total_executions - 1) + x) total_executions of
             Inl e \<Rightarrow> (Inl e, m)
           | Inr avg \<Rightarrow> (Inr (), m(key \<mapsto> avg))))"

definition update_averages :: "real \<Rightarrow> real \<Rightarrow> int \<Rightarrow> metrics \<Rightarrow> (pyexc + unit) \<times> metrics" where
  "update_averages score time tokens m =
     (case item m ''total_executions'' of
        Inl e \<Rightarrow> (Inl e, m)
      | Inr total_executions \<Rightarrow>
          (case update_average ''average_score'' score total_executions m of
             (Inl e, m1) \<Rightarrow> (Inl e, m1)
           | (Inr _, m1) \<Rightarrow>
               (case update_average ''average_response_time'' time total_executions m1 of
                  (Inl e, m2) \<Rightarrow> (Inl e, m2)
                | (Inr _, m2) \<Rightarrow> update_token_metrics tokens total_executions m2)))"

definition update_performance_metrics :: "AgentConfig \<Rightarrow> real \<Rightarrow> real \<Rightarrow> int \<Rightarrow> metrics
    \<Rightarrow> (pyexc + unit) \<times> metrics" where
  "update_performance_metrics cfg score time tokens m =
     (if score \<ge> min_score (output_criterion cfg) then
        (case item m ''successful_executions'' of
           Inl e \<Rightarrow> (Inl e, m)
         | Inr n \<Rightarrow> update_averages score time tokens (m(''successful_executions'' \<mapsto> n + 1)))
      else update_averages score time tokens m)"

definition lit_input_failed :: ustr where
  "lit_input_failed = [36755, 20837, 39564, 35777, 22833, 36133, 58, 32]"
definition lit_output_failed :: ustr where
  "lit_output_failed = [36755, 20986, 39564, 35777, 22833, 36133, 58, 32]"

text \<open>
  \<open>_validate_input\<close>: a dictionary is validated as it is; any other value is given to every
  constraint under the constraint's name.
\<close>

definition as_dict :: "InputTypeConstraint list \<Rightarrow> pyval \<Rightarrow> (ustr \<times> pyval) list" where
  "as_dict cs data =
     (case data of
        PDict d \<Rightarrow> d
      | _ \<Rightarrow> foldl (\<lambda>d c. AList.update (name c) data d) [] cs)"

definition validate_against :: "pyenv \<Rightarrow> ustr \<Rightarrow> InputTypeConstraint list \<Rightarrow> pyval \<Rightarrow> pyexc + unit" where
  "validate_against E lit cs data =
     (if cs = [] then Inr ()
      else (case is_valid E cs (as_dict cs data) of
              Inl e \<Rightarrow> Inl e
            | Inr ok \<Rightarrow>
                if ok then Inr ()
                else (case get_all_errors E cs (as_dict cs data) [] of
                        Inl e \<Rightarrow> Inl e
                      | Inr errors \<Rightarrow> Inl (ValueError (lit @ join (ustr_of ''; '') errors)))))"

definition validate_input :: "pyenv \<Rightarrow> AgentConfig \<Rightarrow> pyval \<Rightarrow> pyexc + unit" where
  "validate_input E cfg input_data = validate_against E lit_input_failed (input_constraints cfg) input_data"

text \<open>
  Modelled from the spec: \<open>OutputTypeConstraint\<close> and \<open>OutputConstraintSet\<close> of
  app/core/constraint/output.py, which the agent imports. The spec gives the agent two
  constraint sets, input and output, checked by the one constraint validator, so the output
  set is validated as the input set is.
\<close>

definition validate_output :: "pyenv \<Rightarrow> AgentConfig \<Rightarrow> pyval \<Rightarrow> pyexc + unit" where
  "validate_output E cfg output = validate_against E lit_output_failed (output_constraints cfg) output"

definition build_prompt :: "pyenv \<Rightarrow> AgentConfig \<Rightarrow> pyval \<Rightarrow> prompt" where
  "build_prompt E cfg input_data =
     TaskPrompt (agent_description cfg) (str_of E input_data)
       (criterion_description (output_criterion cfg))
       (map (\<lambda>c. (name c, data_type c)) (input_constraints cfg))
       (map (\<lambda>c. (name c, data_type c)) (output_constraints cfg))"

definition generate_output :: "pyenv \<Rightarrow> 'b transport \<Rightarrow> pyval \<Rightarrow> 'b AgentBase \<Rightarrow> (pyexc + ustr) \<times> 'b AgentBase" where
  "generate_output E T input_data a =
     (case generate_with_retry T (build_prompt E (config a) input_data) None (llm a) of
        (Inl e, l) \<Rightarrow> (Inl e, a\<lparr>llm := l\<rparr>)
      | (Inr result, l) \<Rightarrow> (Inr (result_text result), a\<lparr>llm := l\<rparr>))"

text \<open>\<open>_evaluate_quality\<close> scores with the agent's own backend.\<close>

definition evaluate_quality :: "pyenv \<Rightarrow> 'b transport \<Rightarrow> pyval \<Rightarrow> 'b AgentBase \<Rightarrow> real \<times> 'b AgentBase" where
  "evaluate_quality E T output a =
     (case evaluate E T (output_criterion (config a)) output (Some (llm a)) of
        (score, Some l) \<Rightarrow> (score, a\<lparr>llm := l\<rparr>)
      | (score, None) \<Rightarrow> (score, a))"

definition optimize_prompt :: "pyenv \<Rightarrow> 'b transport \<Rightarrow> pyval \<Rightarrow> ustr \<Rightarrow> real \<Rightarrow> 'b AgentBase
    \<Rightarrow> prompt \<times> 'b AgentBase" where
  "optimize_prompt E T input_data previous_output score a =
     (if \<not> enable_auto_optimization (config a) then (build_prompt E (config a) input_data, a)
      else (case generate T
                   (OptimizationPrompt (agent_description (config a)) (str_of E input_data)
                      previous_output score (criterion_description (output_criterion (config a))))
                   (Some 200) (llm a) of
              (Inr result, l) \<Rightarrow>
                (TaskPrompt (strip E (result_text result)) (str_of E input_data)
                   (criterion_description (output_criterion (config a))) [] [],
                 a\<lparr>llm := l\<rparr>)
            | (Inl e, l) \<Rightarrow> (build_prompt E (config a) input_data, a\<lparr>llm := l\<rparr>)))"

definition optimize_and_retry :: "pyenv \<Rightarrow> 'b transport \<Rightarrow> pyval \<Rightarrow> ustr \<Rightarrow> real \<Rightarrow> 'b AgentBase
    \<Rightarrow> (pyexc + ustr) \<times> 'b AgentBase" where
  "optimize_and_retry E T input_data previous_output score a =
     (case optimize_prompt E T input_data previous_output score a of
        (optimized_prompt, a1) \<Rightarrow>
          (case generate_with_retry T optimized_prompt None (llm a1) of
             (Inl e, l) \<Rightarrow> (Inl e, a1\<lparr>llm := l\<rparr>)
           | (Inr result, l) \<Rightarrow> (Inr (result_text result), a1\<lparr>llm := l\<rparr>)))"

text \<open>
  The readings of the clocks in one call of \<open>execute\<close>: the event-loop time at its start
  and when the record is built, and the wall-clock time of the record.
\<close>

record clock =
  start_time :: real
  record_time :: real
  utcnow :: real

text \<open>
  \<open>execute\<close>: first the part after output validation, then the body of the \<open>try\<close>, then
  the function with its handler, which sets the status to \<open>ERROR\<close> and raises again.
\<close>

definition accept_or_retry :: "pyenv \<Rightarrow> 'b transport \<Rightarrow> clock \<Rightarrow> pyval \<Rightarrow> ustr \<Rightarrow> real \<Rightarrow> 'b AgentBase
    \<Rightarrow> (pyexc + ustr) \<times> 'b AgentBase" where
  "accept_or_retry E T clk input_data output score a =
     (let tokens = total_tokens_used (llm a);
          execution_record =
            \<lparr>record_timestamp = utcnow clk, record_input = input_data, record_output = output,
             quality_score = score, response_time = record_time clk - start_time clk,
             record_retry_count = retry_count a, record_tokens_used = tokens\<rparr>;
          a1 = a\<lparr>execution_history := execution_history a @ [execution_record]\<rparr>
      in if score < min_score (output_criterion (config a1)) \<and> retry_count a1 < max_retries (config a1)
         then optimize_and_retry E T input_data output score (a1\<lparr>retry_count := retry_count a1 + 1\<rparr>)
         else (case update_performance_metrics (config a1) score (response_time execution_record)
                      tokens (performance_metrics a1) of
                 (Inl e, m) \<Rightarrow> (Inl e, a1\<lparr>performance_metrics := m\<rparr>)
               | (Inr _, m) \<Rightarrow>
                   (Inr output, a1\<lparr>performance_metrics := m, status := IDLE, retry_count := 0\<rparr>)))"

definition execute_body :: "pyenv \<Rightarrow> 'b transport \<Rightarrow> clock \<Rightarrow> pyval \<Rightarrow> 'b AgentBase
    \<Rightarrow> (pyexc + ustr) \<times> 'b AgentBase" where
  "execute_body E T clk input_data a =
     (case item (performance_metrics a) ''total_executions'' of
        Inl e \<Rightarrow> (Inl e, a)
      | Inr n \<Rightarrow>
          (let a1 = a\<lparr>performance_metrics := (performance_metrics a)(''total_executions'' \<mapsto> n + 1)\<rparr> in
           case validate_input E (config a1) input_data of
             Inl e \<Rightarrow> (Inl e, a1)
           | Inr _ \<Rightarrow>
               (case generate_output E T input_data a1 of
                  (Inl e, a2) \<Rightarrow> (Inl e, a2)
                | (Inr output, a2) \<Rightarrow>
                    (case validate_output E (config a2) (PStr output) of
                       Inl e \<Rightarrow> (Inl e, a2)
                     | Inr _ \<Rightarrow>
                         (case evaluate_quality E T (PStr output) a2 of
                            (score, a3) \<Rightarrow> accept_or_retry E T clk input_data output score a3)))))"

definition execute :: "pyenv \<Rightarrow> 'b transport \<Rightarrow> clock \<Rightarrow> pyval \<Rightarrow> 'b AgentBase
    \<Rightarrow> (pyexc + ustr) \<times> 'b AgentBase" where
  "execute E T clk input_data a =
     (case execute_body E T clk input_data (a\<lparr>status := BUSY\<rparr>) of
        (Inr output, a') \<Rightarrow> (Inr output, a')
      | (Inl e, a') \<Rightarrow> (Inl e, a'\<lparr>status := ERROR\<rparr>))"

section \<open>Backend selector: app/core/llm/factory.py\<close>

record LLMConfig =
  model_name :: ustr
  temperature :: real
  max_tokens :: nat

record QwenAPIConfig =
  api_key :: ustr
  base_url :: ustr
  api_model_name :: ustr

text \<open>
  An \<open>LLMConfig\<close> is a mutable object, and a backend keeps the object it was constructed
  with, not a copy. The objects live in a store, a list in which the reference of an object
  is its index; a backend holds the reference of its configuration.
\<close>

type_synonym ref = nat

type_synonym store = "LLMConfig list"

datatype llm_instance =
    QwenLLM ref
  | QwenAPILLM ref QwenAPIConfig

fun config_ref :: "llm_instance \<Rightarrow> ref" where
  "config_ref (QwenLLM r) = r"
| "config_ref (QwenAPILLM r a) = r"

definition new_object :: "LLMConfig \<Rightarrow> store \<Rightarrow> ref \<times> store" where
  "new_object c h = (length h, h @ [c])"

text \<open>\<open>obj.model_name = n\<close>, for the reference of an object of the store.\<close>

definition set_model_name :: "ref \<Rightarrow> ustr \<Rightarrow> store \<Rightarrow> store" where
  "set_model_name r n h = (if r < length h then h[r := (h ! r)\<lparr>model_name := n\<rparr>] else h)"

record LLMFactoryConfig =
  preferred_mode :: string
  local_model_name :: ustr
  cloud_model_name :: ustr
  factory_api_key :: "ustr option"
  factory_base_url :: ustr
  fallback_to_cloud :: bool
  health_check_timeout :: int

record LLMFactory =
  factory_config :: LLMFactoryConfig
  local_llm :: "llm_instance option"
  cloud_llm :: "llm_instance option"
  current_mode :: "string option"

definition LLMFactory_init :: "LLMFactoryConfig \<Rightarrow> LLMFactory" where
  "LLMFactory_init cfg =
     \<lparr>factory_config = cfg, local_llm = None, cloud_llm = None, current_mode = None\<rparr>"

text \<open>
  The health probe of an instance is an external collaborator: what
  \<open>asyncio.wait_for(instance.health_check(), timeout)\<close> gives, a boolean or an exception
  (the timeout among them).
\<close>

type_synonym probe = "llm_instance \<Rightarrow> pyexc + bool"

definition check_health :: "probe \<Rightarrow> llm_instance option \<Rightarrow> bool" where
  "check_health H inst =
     (case inst of
        None \<Rightarrow> False
      | Some i \<Rightarrow> (case H i of Inr b \<Rightarrow> b | Inl e \<Rightarrow> False))"

definition check_local_health :: "probe \<Rightarrow> LLMFactory \<Rightarrow> bool" where
  "check_local_health H f = check_health H (local_llm f)"

definition check_cloud_health :: "probe \<Rightarrow> LLMFactory \<Rightarrow> bool" where
  "check_cloud_health H f = check_health H (cloud_llm f)"

definition lit_local_unavailable :: ustr where
  "lit_local_unavailable = [26412, 22320, 27169, 22411, 19981, 21487, 29992]"
definition lit_cloud_unavailable :: ustr where
  "lit_cloud_unavailable = [20113, 31471, 27169, 22411, 19981, 21487, 29992]"
definition lit_need_api_key :: ustr where
  "lit_need_api_key = [20113, 31471, 27169, 24335, 38656, 35201, 65, 80, 73, 23494, 38053]"
definition lit_both_unavailable :: ustr where
  "lit_both_unavailable = [26412, 22320, 21644, 20113, 31471, 27169, 22411, 37117, 19981, 21487, 29992]"
definition lit_no_fallback :: ustr where
  "lit_no_fallback =
     [26412, 22320, 27169, 22411, 19981, 21487, 29992, 19988, 26410, 21551, 29992, 20113, 31471,
      22238, 36864]"

text \<open>
  Each \<open>_create_*\<close> takes the reference of the \<open>llm_config\<close> object and returns the
  instance field of the selector, or raises. \<open>_create_local_llm\<close> leaves the store as it
  is; \<open>_create_cloud_llm\<close>, when it constructs the cloud instance, first assigns the cloud
  model name to the \<open>llm_config\<close> object it was given.
\<close>

definition create_local_llm :: "probe \<Rightarrow> ref \<Rightarrow> LLMFactory \<Rightarrow> (pyexc + llm_instance option) \<times> LLMFactory" where
  "create_local_llm H llm_config f =
     (let f1 = (if local_llm f = None then f\<lparr>local_llm := Some (QwenLLM llm_config)\<rparr> else f) in
      if check_local_health H f1 then (Inr (local_llm f1), f1\<lparr>current_mode := Some ''local''\<rparr>)
      else (Inl (Exception lit_local_unavailable), f1))"

definition cloud_after_construction :: "probe \<Rightarrow> LLMFactory \<Rightarrow> (pyexc + llm_instance option) \<times> LLMFactory" where
  "cloud_after_construction H f =
     (if check_cloud_health H f then (Inr (cloud_llm f), f\<lparr>current_mode := Some ''cloud''\<rparr>)
      else (Inl (Exception lit_cloud_unavailable), f))"

definition create_cloud_llm :: "probe \<Rightarrow> ref \<Rightarrow> LLMFactory \<Rightarrow> store
    \<Rightarrow> (pyexc + llm_instance option) \<times> LLMFactory \<times> store" where
  "create_cloud_llm H llm_config f h =
     (if cloud_llm f = None then
        (case factory_api_key (factory_config f) of
           None \<Rightarrow> (Inl (ValueError lit_need_api_key), f, h)
         | Some key \<Rightarrow>
             if key = [] then (Inl (ValueError lit_need_api_key), f, h)
             else
               (let api_config =
                      \<lparr>api_key = key, base_url = factory_base_url (factory_config f),
                       api_model_name = cloud_model_name (factory_config f)\<rparr>;
                    h1 = set_model_name llm_config (cloud_model_name (factory_config f)) h
                in case cloud_after_construction H
                          (f\<lparr>cloud_llm := Some (QwenAPILLM llm_config api_config)\<rparr>) of
                     (r, f1) \<Rightarrow> (r, f1, h1)))
      else (case cloud_after_construction H f of (r, f1) \<Rightarrow> (r, f1, h)))"

definition create_auto_llm :: "probe \<Rightarrow> ref \<Rightarrow> LLMFactory \<Rightarrow> store
    \<Rightarrow> (pyexc + llm_instance option) \<times> LLMFactory \<times> store" where
  "create_auto_llm H llm_config f h =
     (case create_local_llm H llm_config f of
        (Inr local, f1) \<Rightarrow> (Inr local, f1, h)
      | (Inl e, f1) \<Rightarrow>
          if fallback_to_cloud (factory_config f1) then
            (case create_cloud_llm H llm_config f1 h of
               (Inr cloud, f2, h2) \<Rightarrow> (Inr cloud, f2, h2)
             | (Inl e2, f2, h2) \<Rightarrow> (Inl (Exception lit_both_unavailable), f2, h2))
          else (Inl (Exception lit_no_fallback), f1, h))"

text \<open>
  \<open>create_llm\<close> is given the reference of an \<open>LLMConfig\<close> object or \<open>None\<close>; for
  \<open>None\<close> it makes a new object.
\<close>

definition create_llm :: "probe \<Rightarrow> ref option \<Rightarrow> LLMFactory \<Rightarrow> store
    \<Rightarrow> (pyexc + llm_instance option) \<times> LLMFactory \<times> store" where
  "create_llm H llm_config f h =
     (case (case llm_config of
              None \<Rightarrow> new_object \<lparr>model_name = local_model_name (factory_config f),
                                  temperature = 0.7, max_tokens = 4096\<rparr> h
            | Some r \<Rightarrow> (r, h)) of
        (cfg, h0) \<Rightarrow>
          if preferred_mode (factory_config f) = ''local'' then
            (case create_local_llm H cfg f of (r, f1) \<Rightarrow> (r, f1, h0))
          else if preferred_mode (factory_config f) = ''cloud'' then create_cloud_llm H cfg f h0
          else create_auto_llm H cfg f h0)"

fun is_local :: "llm_instance \<Rightarrow> bool" where
  "is_local (QwenLLM c) = True"
| "is_local (QwenAPILLM c a) = False"

definition get_current_mode :: "LLMFactory \<Rightarrow> string option" where
  "get_current_mode f = current_mode f"

section \<open>Concrete runs\<close>

text \<open>
  A runtime in which \<open>lower\<close> and \<open>strip\<close> change nothing, \<open>split\<close> finds one word,
  \<open>float\<close> parses the text "0.3" only, every pattern matches and \<open>str\<close> gives the empty
  string. Its arithmetic does not round: in the runs below that use it, a score is only added
  to 0.0 and multiplied and divided by 1.0, which no double-precision operation rounds.
  And the same runtime with a matcher that raises \<open>OverflowError\<close>, as \<open>re.match\<close> does
  on a repetition count of 4294967296.
\<close>

definition env0 :: pyenv where
  "env0 =
     \<lparr>re_match = (\<lambda>p s. Inr True), str_of = (\<lambda>v. []), lower = (\<lambda>s. s),
      strip = (\<lambda>s. s), split = (\<lambda>s. [s]),
      parse_float = (\<lambda>s. if s = ustr_of ''0.3'' then Some 0.3 else None),
      float_add = (\<lambda>x y. x + y), float_mul = (\<lambda>x y. x * y), float_div = (\<lambda>x y. x / y)\<rparr>"

definition env_overflow :: pyenv where
  "env_overflow = env0\<lparr>re_match := (\<lambda>p s. Inl OverflowError)\<rparr>"

definition constraint_overflow :: InputTypeConstraint where
  "constraint_overflow =
     \<lparr>name = ustr_of ''f'', data_type = ''string'', required = True, min_length = None,
      max_length = None, pattern = Some (ustr_of ''a{4294967296}''), allowed_values = None,
      min_value = None, max_value = None\<rparr>"

definition constraint_integer :: InputTypeConstraint where
  "constraint_integer =
     \<lparr>name = ustr_of ''n'', data_type = ''integer'', required = True, min_length = None,
      max_length = None, pattern = None, allowed_values = None,
      min_value = None, max_value = None\<rparr>"

text \<open>A backend that fails every call, with the number of the call in the exception.\<close>

definition failing_transport :: "nat transport" where
  "failing_transport b p mt = (Inl (OtherError b), b + 1)"

text \<open>
  A backend that answers every scoring prompt with "0.3" and every other prompt with the
  text "out" followed by the number of such prompts answered before.
\<close>

definition scripted_transport :: "nat transport" where
  "scripted_transport b p mt =
     (case p of
        ScoringPrompt d out ms \<Rightarrow> (Inr \<lparr>result_text = ustr_of ''0.3'', tokens_used = 1\<rparr>, b)
      | _ \<Rightarrow> (Inr \<lparr>result_text = ustr_of ''out'' @ [48 + b], tokens_used = 10\<rparr>, b + 1))"

definition llm_fresh :: "nat \<Rightarrow> nat LLM" where
  "llm_fresh n =
     \<lparr>llm_max_retries = n, is_loaded = True, total_tokens_used = 0, total_requests = 0,
      backend = 0, trace = []\<rparr>"

definition accuracy_metric :: CriterionMetric where
  "accuracy_metric =
     \<lparr>metric_name = kw_accuracy, metric_description = [], weight = 1, threshold = 0.8\<rparr>"

definition agent_config :: "real \<Rightarrow> nat \<Rightarrow> bool \<Rightarrow> AgentConfig" where
  "agent_config ms mr opt =
     \<lparr>agent_name = ustr_of ''agent'', agent_description = ustr_of ''task'',
      input_constraints = [], output_constraints = [],
      output_criterion = OutputCriterion_new (ustr_of ''bar'') (ustr_of ''good'') [accuracy_metric]
                           Map.empty ms 3,
      max_retries = mr, timeout = 30, enable_auto_optimization = opt\<rparr>"

definition clock0 :: clock where
  "clock0 = \<lparr>start_time = 0, record_time = 2, utcnow = 100\<rparr>"

text \<open>
  A selector in \<open>auto\<close> mode with the fallback enabled and a given API key (or none), and
  a probe that finds every local instance unhealthy and every cloud instance healthy.
\<close>

definition factory_auto :: "ustr option \<Rightarrow> LLMFactory" where
  "factory_auto key =
     LLMFactory_init
       \<lparr>preferred_mode = ''auto'', local_model_name = ustr_of ''qwen3:8b'',
        cloud_model_name = ustr_of ''qwen-plus'', factory_api_key = key,
        factory_base_url = ustr_of ''https://dashscope.aliyuncs.com/compatible-mode/v1'',
        fallback_to_cloud = True, health_check_timeout = 10\<rparr>"

definition probe_cloud_only :: probe where
  "probe_cloud_only i = Inr (\<not> is_local i)"

text \<open>
  Three calls of \<open>execute\<close> on an agent with one metric whose score is always 0.3 and a
  retry budget of 2: on a new agent with \<open>min_score = 0.8\<close>, on a new agent with
  \<open>min_score = 0.2\<close>, and with \<open>min_score = 0.2\<close> after \<open>reset_metrics\<close>.
\<close>

definition low_score_run :: "bool \<Rightarrow> (pyexc + ustr) \<times> nat AgentBase" where
  "low_score_run opt =
     execute env0 scripted_transport clock0 (PStr [])
       (AgentBase_init (agent_config 0.8 2 opt) (llm_fresh 3))"

definition fresh_accept_run :: "bool \<Rightarrow> (pyexc + ustr) \<times> nat AgentBase" where
  "fresh_accept_run opt =
     execute env0 scripted_transport clock0 (PStr [])
       (AgentBase_init (agent_config 0.2 2 opt) (llm_fresh 3))"

definition reset_accept_run :: "bool \<Rightarrow> (pyexc + ustr) \<times> nat AgentBase" where
  "reset_accept_run opt =
     execute env0 scripted_transport clock0 (PStr [])
       (reset_metrics (AgentBase_init (agent_config 0.2 2 opt) (llm_fresh 3)))"

definition empty_criterion :: OutputCriterion where
  "empty_criterion = OutputCriterion_new [] [] [] Map.empty 0.8 3"

subsection \<open>Double-precision arithmetic\<close>

text \<open>
  Rounding to the nearest double, ties to even: a double has 53 significant bits and an
  exponent of at least -1074 for its last bit. Overflow to infinity is not modelled.
  \<open>pow2 e\<close> is 2 to the power \<open>e\<close> and \<open>ilog2 x\<close> the integer part of the binary
  logarithm of a positive \<open>x\<close>.
\<close>

definition pow2 :: "int \<Rightarrow> real" where
  "pow2 e = (if e \<ge> 0 then 2 ^ nat e else 1 / 2 ^ nat (- e))"

definition ilog2 :: "real \<Rightarrow> int" where
  "ilog2 x = (if x \<ge> 1 then bitlen \<lfloor>x\<rfloor> - 1 else - bitlen (\<lceil>1 / x\<rceil> - 1))"

definition round_half_even :: "real \<Rightarrow> int" where
  "round_half_even r =
     (if r - of_int \<lfloor>r\<rfloor> < 1 / 2 then \<lfloor>r\<rfloor>
      else if r - of_int \<lfloor>r\<rfloor> > 1 / 2 then \<lfloor>r\<rfloor> + 1
      else if even \<lfloor>r\<rfloor> then \<lfloor>r\<rfloor> else \<lfloor>r\<rfloor> + 1)"

definition round_double :: "real \<Rightarrow> real" where
  "round_double x =
     (if x = 0 then 0
      else (let e = max (ilog2 \<bar>x\<bar> - 52) (- 1074)
            in of_int (round_half_even (x / pow2 e)) * pow2 e))"

text \<open>
  The doubles that the literals 0.7 and 0.1 denote, and the double next below the first,
  which prints as 0.6999999999999998.
\<close>

definition double_0_7 :: real where
  "double_0_7 = 3152519739159347 / 2 ^ 52"

definition double_0_1 :: real where
  "double_0_1 = 3602879701896397 / 2 ^ 55"

definition double_below_0_7 :: real where
  "double_below_0_7 = 6305039478318693 / 2 ^ 53"

text \<open>
  The runtime with double-precision arithmetic, in which \<open>float\<close> parses the text "0.7";
  a backend that answers every prompt with that text; and a criterion of one metric of
  weight 0.1.
\<close>

definition env_double :: pyenv where
  "env_double =
     env0\<lparr>parse_float := (\<lambda>s. if s = ustr_of ''0.7'' then Some double_0_7 else None),
          float_add := (\<lambda>x y. round_double (x + y)),
          float_mul := (\<lambda>x y. round_double (x * y)),
          float_div := (\<lambda>x y. round_double (x / y))\<rparr>"

definition scoring_transport :: "nat transport" where
  "scoring_transport b p mt = (Inr \<lparr>result_text = ustr_of ''0.7'', tokens_used = 1\<rparr>, b + 1)"

definition one_metric_criterion :: OutputCriterion where
  "one_metric_criterion =
     OutputCriterion_new [] [] [accuracy_metric\<lparr>weight := double_0_1\<rparr>] Map.empty 0.5 3"

section \<open>Properties of the backend invoker\<close>

lemma sleeps_of_append: "sleeps_of (xs @ ys) = sleeps_of xs @ sleeps_of ys"
  by (induction xs rule: sleeps_of.induct) auto

lemma generate_max_retries: "llm_max_retries (snd (generate T p mt l)) = llm_max_retries l"
  by (auto simp: generate_def update_token_usage_def split: prod.splits sum.splits)

lemma generate_trace_fail:
  "generate T p mt l = (Inl e, l') \<Longrightarrow> trace l' = trace l @ [Call p mt (Some e)]"
  by (auto simp: generate_def update_token_usage_def split: prod.splits sum.splits)

lemma generate_trace_ok:
  "generate T p mt l = (Inr r, l') \<Longrightarrow> trace l' = trace l @ [Call p mt None]"
  by (auto simp: generate_def update_token_usage_def split: prod.splits sum.splits)

lemma sleep_simps [simp]: "trace (sleep d l) = trace l @ [Sleep d]" "llm_max_retries (sleep d l) = llm_max_retries l"
  by (simp_all add: sleep_def)

lemma generate_fail_max: "generate T p mt l = (Inl e, l') \<Longrightarrow> llm_max_retries l' = llm_max_retries l"
  using generate_max_retries[of T p mt l] by simp

lemma no_events: "filter is_call evs = [] \<Longrightarrow> sleeps_of evs = [] \<Longrightarrow> evs = []"
  by (cases evs rule: sleeps_of.cases) auto

lemma retry_loop_fail:
  "retry_loop T p mt last_e [a ..< n] l = (Inl e, l') \<Longrightarrow> n = llm_max_retries l + 1 \<Longrightarrow> a \<le> n \<Longrightarrow>
   \<exists>evs. trace l' = trace l @ evs
      \<and> length (filter is_call evs) = n - a
      \<and> length (filter is_failed_call evs) = n - a
      \<and> sleeps_of evs = map (\<lambda>i. 2 ^ i) [a ..< n - 1]
      \<and> (if a < n then last evs = Call p mt (Some e) else last_e = Some e \<or> (last_e = None \<and> e = Exception msg_generation_failed))"
proof (induction "n - a" arbitrary: a last_e l)
  case 0
  then have "a = n" by simp
  with 0 show ?case by (auto split: option.splits)
next
  case (Suc k)
  then have an: "a < n" and up: "[a ..< n] = a # [Suc a ..< n]" by (auto simp: upt_conv_Cons)
  from Suc.prems(1) up obtain e1 l1 where g: "generate T p mt l = (Inl e1, l1)"
    and rec: "retry_loop T p mt (Some e1) [Suc a ..< n] (if a < llm_max_retries l1 then sleep (2 ^ a) l1 else l1) = (Inl e, l')"
    by (auto split: prod.splits sum.splits)
  let ?l2 = "(if a < llm_max_retries l1 then sleep (2 ^ a) l1 else l1)"
  have m1: "llm_max_retries l1 = llm_max_retries l" using g by (rule generate_fail_max)
  have m2: "n = llm_max_retries ?l2 + 1" using Suc.prems(2) m1 by simp
  have k: "k = n - Suc a" using Suc.hyps(2) by simp
  from Suc.hyps(1)[OF k rec m2] an obtain evs where
    t: "trace l' = trace ?l2 @ evs" and c: "length (filter is_call evs) = n - Suc a"
    and f: "length (filter is_failed_call evs) = n - Suc a"
    and s: "sleeps_of evs = map (\<lambda>i. 2 ^ i) [Suc a ..< n - 1]"
    and la: "(if Suc a < n then last evs = Call p mt (Some e) else Some e1 = Some e \<or> (Some e1 = None \<and> e = Exception msg_generation_failed))"
    by auto
  have t1: "trace l1 = trace l @ [Call p mt (Some e1)]" using g by (rule generate_trace_fail)
  show ?case
  proof (cases "Suc a < n")
    case True
    then have lt: "a < llm_max_retries l1" using m1 Suc.prems(2) by simp
    have ne: "evs \<noteq> []" using c True by auto
    let ?evs = "Call p mt (Some e1) # Sleep (2 ^ a) # evs"
    have "trace l' = trace l @ ?evs" using t t1 lt by simp
    moreover have "length (filter is_call ?evs) = n - a" using c an by simp
    moreover have "length (filter is_failed_call ?evs) = n - a" using f an by simp
    moreover have "sleeps_of ?evs = map (\<lambda>i. 2 ^ i) [a ..< n - 1]"
      using s True by (simp add: upt_conv_Cons)
    moreover have "last ?evs = Call p mt (Some e)" using la True ne by simp
    ultimately show ?thesis using an by (intro exI[of _ ?evs]) simp
  next
    case False
    then have eq: "n = Suc a" using an by simp
    then have nlt: "\<not> a < llm_max_retries l1" using m1 Suc.prems(2) by simp
    have e1: "e1 = e" using la False by simp
    have evs: "evs = []" using c s eq by (simp add: no_events)
    let ?evs = "[Call p mt (Some e1)]"
    have "trace l' = trace l @ ?evs" using t t1 nlt evs by simp
    then show ?thesis using an eq e1 by (intro exI[of _ ?evs]) simp
  qed
qed

lemma retry_loop_ok:
  "retry_loop T p mt last_e [a ..< n] l = (Inr r, l') \<Longrightarrow> n = llm_max_retries l + 1 \<Longrightarrow> a \<le> n \<Longrightarrow>
   \<exists>evs k. trace l' = trace l @ evs \<and> a + k < n
      \<and> length (filter is_call evs) = k + 1
      \<and> length (filter is_failed_call evs) = k
      \<and> sleeps_of evs = map (\<lambda>i. 2 ^ i) [a ..< a + k]
      \<and> last evs = Call p mt None"
proof (induction "n - a" arbitrary: a last_e l)
  case 0
  then have "a = n" by simp
  with 0 show ?case by (auto split: option.splits)
next
  case (Suc j)
  then have an: "a < n" and up: "[a ..< n] = a # [Suc a ..< n]" by (auto simp: upt_conv_Cons)
  show ?case
  proof (cases "generate T p mt l")
    case (Pair x l1)
    show ?thesis
    proof (cases x)
      case (Inr r1)
      with Pair Suc.prems(1) up have "l' = l1" "r1 = r" by auto
      with Pair Inr have "trace l' = trace l @ [Call p mt None]" using generate_trace_ok by blast
      then show ?thesis using an
        by (intro exI[of _ "[Call p mt None]"] exI[of _ 0]) simp
    next
      case (Inl e1)
      let ?l2 = "(if a < llm_max_retries l1 then sleep (2 ^ a) l1 else l1)"
      from Inl Pair have g: "generate T p mt l = (Inl e1, l1)" by simp
      with Suc.prems(1) up have rec: "retry_loop T p mt (Some e1) [Suc a ..< n] ?l2 = (Inr r, l')"
        by simp
      have m1: "llm_max_retries l1 = llm_max_retries l" using g by (rule generate_fail_max)
      have m2: "n = llm_max_retries ?l2 + 1" using Suc.prems(2) m1 by simp
      have k: "j = n - Suc a" using Suc.hyps(2) by simp
      from Suc.hyps(1)[OF k rec m2] an obtain evs k where
        t: "trace l' = trace ?l2 @ evs" and b: "Suc a + k < n" and c: "length (filter is_call evs) = k + 1"
        and f: "length (filter is_failed_call evs) = k"
        and s: "sleeps_of evs = map (\<lambda>i. 2 ^ i) [Suc a ..< Suc a + k]"
        and la: "last evs = Call p mt None"
        by auto
      have t1: "trace l1 = trace l @ [Call p mt (Some e1)]" using g by (rule generate_trace_fail)
      have lt: "a < llm_max_retries l1" using m1 Suc.prems(2) b by simp
      have ne: "evs \<noteq> []" using c by auto
      let ?evs = "Call p mt (Some e1) # Sleep (2 ^ a) # evs"
      have "trace l' = trace l @ ?evs" using t t1 lt by simp
      moreover have "a + Suc k < n" using b by simp
      moreover have "length (filter is_call ?evs) = Suc k + 1" using c by simp
      moreover have "length (filter is_failed_call ?evs) = Suc k" using f by simp
      moreover have "sleeps_of ?evs = map (\<lambda>i. 2 ^ i) [a ..< a + Suc k]"
        using s by (simp add: upt_conv_Cons)
      moreover have "last ?evs = Call p mt None" using la ne by simp
      ultimately show ?thesis by (intro exI[of _ ?evs] exI[of _ "Suc k"]) blast
    qed
  qed
qed


text \<open>
  C7. \<open>generate_with_retry\<close> calls the single-shot \<open>generate\<close> at most
  \<open>max_retries + 1\<close> times. When it returns a result after \<open>k\<close> failed attempts, it
  has slept 1, 2, ..., 2^(k-1) time units, once after each failed attempt. When every
  attempt fails, it has made \<open>max_retries + 1\<close> calls, slept 2^attempt after each failed
  attempt but the last, and it raises the exception of the last call. The generic error is
  raised only by a loop of no attempts with no exception captured.
\<close>

theorem generate_with_retry_backoff:
  assumes "generate_with_retry T p mt l = (r, l')"
  shows "\<exists>evs. trace l' = trace l @ evs
      \<and> length (filter is_call evs) \<le> llm_max_retries l + 1
      \<and> (case r of
            Inr result \<Rightarrow>
              length (filter is_call evs) = length (filter is_failed_call evs) + 1
              \<and> sleeps_of evs = map (\<lambda>attempt. 2 ^ attempt) [0 ..< length (filter is_failed_call evs)]
              \<and> last evs = Call p mt None
          | Inl e \<Rightarrow>
              length (filter is_call evs) = llm_max_retries l + 1
              \<and> length (filter is_failed_call evs) = llm_max_retries l + 1
              \<and> sleeps_of evs = map (\<lambda>attempt. 2 ^ attempt) [0 ..< llm_max_retries l]
              \<and> last evs = Call p mt (Some e))
    \<and> retry_loop T p mt None [] l = (Inl (Exception msg_generation_failed), l)"
proof (cases r)
  case (Inl e)
  with assms have "retry_loop T p mt None [0 ..< llm_max_retries l + 1] l = (Inl e, l')"
    by (simp add: generate_with_retry_def)
  from retry_loop_fail[OF this] obtain evs where
    "trace l' = trace l @ evs"
    "length (filter is_call evs) = llm_max_retries l + 1"
    "length (filter is_failed_call evs) = llm_max_retries l + 1"
    "sleeps_of evs = map (\<lambda>i. 2 ^ i) [0 ..< llm_max_retries l]"
    "last evs = Call p mt (Some e)"
    by auto
  with Inl have "\<exists>evs. trace l' = trace l @ evs
      \<and> length (filter is_call evs) \<le> llm_max_retries l + 1
      \<and> (case r of
            Inr result \<Rightarrow>
              length (filter is_call evs) = length (filter is_failed_call evs) + 1
              \<and> sleeps_of evs = map (\<lambda>attempt. 2 ^ attempt) [0 ..< length (filter is_failed_call evs)]
              \<and> last evs = Call p mt None
          | Inl e \<Rightarrow>
              length (filter is_call evs) = llm_max_retries l + 1
              \<and> length (filter is_failed_call evs) = llm_max_retries l + 1
              \<and> sleeps_of evs = map (\<lambda>attempt. 2 ^ attempt) [0 ..< llm_max_retries l]
              \<and> last evs = Call p mt (Some e))"
    by (intro exI[of _ evs]) simp
  then show ?thesis by simp
next
  case (Inr res)
  with assms have "retry_loop T p mt None [0 ..< llm_max_retries l + 1] l = (Inr res, l')"
    by (simp add: generate_with_retry_def)
  from retry_loop_ok[OF this] obtain evs k where
    "trace l' = trace l @ evs" "k < llm_max_retries l + 1"
    "length (filter is_call evs) = k + 1"
    "length (filter is_failed_call evs) = k"
    "sleeps_of evs = map (\<lambda>i. 2 ^ i) [0 ..< k]"
    "last evs = Call p mt None"
    by auto
  with Inr have "\<exists>evs. trace l' = trace l @ evs
      \<and> length (filter is_call evs) \<le> llm_max_retries l + 1
      \<and> (case r of
            Inr result \<Rightarrow>
              length (filter is_call evs) = length (filter is_failed_call evs) + 1
              \<and> sleeps_of evs = map (\<lambda>attempt. 2 ^ attempt) [0 ..< length (filter is_failed_call evs)]
              \<and> last evs = Call p mt None
          | Inl e \<Rightarrow>
              length (filter is_call evs) = llm_max_retries l + 1
              \<and> length (filter is_failed_call evs) = llm_max_retries l + 1
              \<and> sleeps_of evs = map (\<lambda>attempt. 2 ^ attempt) [0 ..< llm_max_retries l]
              \<and> last evs = Call p mt (Some e))"
    by (intro exI[of _ evs]) simp
  then show ?thesis by simp
qed

lemma failing_run:
  "generate_with_retry failing_transport HelloPrompt None (llm_fresh 1) =
     (Inl (OtherError 1),
      (llm_fresh 1)\<lparr>backend := 2,
        trace := [Call HelloPrompt None (Some (OtherError 0)), Sleep 1,
                  Call HelloPrompt None (Some (OtherError 1))]\<rparr>)"
  by (simp add: generate_with_retry_def generate_def failing_transport_def llm_fresh_def sleep_def upt_rec)

text \<open>
  The scenario of C7: with \<open>max_retries = 1\<close> and a backend that fails both attempts, the
  caller receives the exception of the second attempt, after two calls and one sleep of
  2^0 = 1 time unit.
\<close>

theorem generate_with_retry_backoff_witness:
  "fst (generate_with_retry failing_transport HelloPrompt None (llm_fresh 1)) = Inl (OtherError 1)
   \<and> trace (snd (generate_with_retry failing_transport HelloPrompt None (llm_fresh 1))) =
       [Call HelloPrompt None (Some (OtherError 0)), Sleep 1, Call HelloPrompt None (Some (OtherError 1))]
   \<and> (\<exists>evs. trace (snd (generate_with_retry failing_transport HelloPrompt None (llm_fresh 1))) =
          trace (llm_fresh 1) @ evs
        \<and> length (filter is_call evs) = 2
        \<and> sleeps_of evs = [1]
        \<and> last evs = Call HelloPrompt None (Some (OtherError 1)))"
proof -
  let ?run = "generate_with_retry failing_transport HelloPrompt None (llm_fresh 1)"
  have f: "fst ?run = Inl (OtherError 1)"
    using failing_run by simp
  have t: "trace (snd ?run) =
      [Call HelloPrompt None (Some (OtherError 0)), Sleep 1, Call HelloPrompt None (Some (OtherError 1))]"
    using failing_run by simp
  have m: "llm_max_retries (llm_fresh 1) = 1"
    by (simp add: llm_fresh_def)
  from generate_with_retry_backoff[OF failing_run]
  obtain evs where e: "trace (snd ?run) = trace (llm_fresh 1) @ evs"
    and c: "length (filter is_call evs) = llm_max_retries (llm_fresh 1) + 1"
    and s: "sleeps_of evs = map (\<lambda>attempt. 2 ^ attempt) [0 ..< llm_max_retries (llm_fresh 1)]"
    and la: "last evs = Call HelloPrompt None (Some (OtherError 1))"
    using t by auto
  have c2: "length (filter is_call evs) = 2" using c m by simp
  have s2: "sleeps_of evs = [1]" using s m by simp
  from e c2 s2 la have "\<exists>evs. trace (snd ?run) = trace (llm_fresh 1) @ evs
        \<and> length (filter is_call evs) = 2
        \<and> sleeps_of evs = [1]
        \<and> last evs = Call HelloPrompt None (Some (OtherError 1))"
    by blast
  with f t show ?thesis by blast
qed

section \<open>Properties of the constraint validator\<close>

lemma validate_never_raises: "\<exists>b. validate E c data = Inr b"
  by (cases "validate_body E c data") (auto simp: validate_def)

text \<open>
  C10. \<open>validate\<close> is total: for every runtime, constraint and value it returns a boolean
  and raises nothing. It returns true exactly when its body runs to the end and returns
  true; when the body returns false or raises any exception (the matcher's \<open>re.error\<close>,
  caught in \<open>_check_pattern\<close>, or any other, caught by the handler of \<open>validate\<close>), it
  returns false.
\<close>

theorem validate_total:
  "(\<exists>b. validate E c data = Inr b)
   \<and> validate E c data = Inr (validate_body E c data = Inr True)"
  by (cases "validate_body E c data") (auto simp: validate_def)

lemma overflow_body:
  "validate_body env_overflow constraint_overflow (PStr (ustr_of ''a'')) = Inl OverflowError"
  by (simp add: validate_body_def check_type_def type_map_def check_length_def check_pattern_def
      env_overflow_def env0_def constraint_overflow_def ustr_of_def)

text \<open>An exception of the matcher that is not \<open>re.error\<close> makes \<open>validate\<close> return false.\<close>

theorem validate_total_witness:
  "validate env_overflow constraint_overflow (PStr (ustr_of ''a'')) = Inr False"
  using validate_total[of env_overflow constraint_overflow "PStr (ustr_of ''a'')"] overflow_body
  by simp

text \<open>
  C5 fails on the code. \<open>get_error_message\<close> runs the checks again outside the
  \<open>try\<close> of \<open>validate\<close>: for a pattern on which the matcher raises an exception other
  than \<open>re.error\<close>, \<open>validate\<close> returns false and \<open>get_error_message\<close> returns no
  message but raises that exception.
\<close>

theorem error_message_raises:
  "validate env_overflow constraint_overflow (PStr (ustr_of ''a'')) = Inr False
   \<and> get_error_message env_overflow constraint_overflow (PStr (ustr_of ''a'')) = Inl OverflowError"
  by (simp add: get_error_message_def validate_def validate_body_def check_type_def type_map_def
      check_length_def check_pattern_def message_length_def message_pattern_def
      env_overflow_def env0_def constraint_overflow_def ustr_of_def)

text \<open>
  Where the pattern check raises nothing, the round trip holds: a message is returned,
  it is none exactly when the value is valid, and it is not empty when the value is invalid.
\<close>

lemma message_allowed_nonempty: "message_allowed E c data \<noteq> []"
  by (simp add: message_allowed_def lit_field_def)

lemma message_value_range_nonempty: "message_value_range E c data \<noteq> []"
  by (simp add: message_value_range_def lit_field_def message_allowed_nonempty)

lemma message_pattern_ok:
  "check_pattern E c data = Inr ok \<Longrightarrow> \<exists>m. message_pattern E c data = Inr m \<and> m \<noteq> []"
  by (simp add: message_pattern_def lit_field_def message_value_range_nonempty)

lemma message_length_ok:
  "check_pattern E c data = Inr ok \<Longrightarrow> \<exists>m. message_length E c data = Inr m \<and> m \<noteq> []"
  using message_pattern_ok[of E c data ok]
  by (auto simp: message_length_def lit_field_def)

lemma error_message_roundtrip:
  assumes "check_pattern E c data = Inr ok"
  shows "\<exists>m. get_error_message E c data = Inr m
     \<and> (m = None \<longleftrightarrow> validate E c data = Inr True)
     \<and> (validate E c data = Inr False \<longrightarrow> (\<exists>s. m = Some s \<and> s \<noteq> []))"
proof -
  obtain b where b: "validate E c data = Inr b"
    using validate_never_raises by blast
  obtain s where s: "message_length E c data = Inr s" "s \<noteq> []"
    using message_length_ok[OF assms] by blast
  show ?thesis using b s
    by (auto simp: get_error_message_def lit_field_def)
qed

lemma error_message_propagates:
  assumes "validate_body E c data = Inl e"
  shows "get_error_message E c data = Inl e"
  using assms
  by (auto simp: get_error_message_def validate_def validate_body_def message_length_def
      message_pattern_def split: if_splits sum.splits)

text \<open>
  C4 as stated fails on the code: the type check is \<open>isinstance\<close>, and a Python boolean is
  an instance of \<open>int\<close>, so the data type \<open>integer\<close> accepts \<open>True\<close>, whose type is not
  \<open>int\<close>.
\<close>

theorem integer_accepts_bool:
  "check_type constraint_integer (PBool True) \<and> type_of (PBool True) \<noteq> Some T_int"
  by (simp add: check_type_def type_map_def constraint_integer_def)

text \<open>
  C4, amended. For every constraint and every value, the type check of \<open>float\<close> accepts
  exactly the integers, the reals and the booleans; that of \<open>integer\<close> exactly the integers
  and the booleans; that of \<open>boolean\<close> exactly the booleans; that of \<open>string\<close> exactly the
  strings; that of \<open>array\<close> exactly the lists and that of \<open>object\<close> exactly the
  dictionaries.
\<close>

theorem check_type_by_isinstance:
  "check_type (c\<lparr>data_type := ''float''\<rparr>) v = (type_of v \<in> {Some T_int, Some T_float, Some T_bool})
   \<and> check_type (c\<lparr>data_type := ''integer''\<rparr>) v = (type_of v \<in> {Some T_int, Some T_bool})
   \<and> check_type (c\<lparr>data_type := ''boolean''\<rparr>) v = (type_of v = Some T_bool)
   \<and> check_type (c\<lparr>data_type := ''string''\<rparr>) v = (type_of v = Some T_str)
   \<and> check_type (c\<lparr>data_type := ''array''\<rparr>) v = (type_of v = Some T_list)
   \<and> check_type (c\<lparr>data_type := ''object''\<rparr>) v = (type_of v = Some T_dict)"
  by (cases v) (simp_all add: check_type_def type_map_def)

section \<open>Properties of the quality criterion\<close>

lemma extract_nonempty: "extract_criteria_from_description E crit \<noteq> []"
  by (simp add: extract_criteria_from_description_def Let_def)

lemma extract_default:
  "\<forall>(n, d) \<in> set common_metrics.
      \<not> list_ex (\<lambda>keyword. sublist keyword (lower E (criterion_description crit))) (split E (lower E n))
   \<Longrightarrow> extract_criteria_from_description E crit = [default_metric]"
  by (auto simp: extract_criteria_from_description_def Let_def filter_empty_conv)

lemma post_init_nonempty: "criteria (post_init E crit) \<noteq> []"
  by (simp add: post_init_def extract_nonempty)

text \<open>
  C3 fails on the code. The derivation itself does what the claim says (the three lemmas
  above), but it lives in \<open>__post_init__\<close>, which the constructor of a pydantic model
  never calls: a criterion constructed with no metrics keeps the empty list, and
  \<open>evaluate\<close> runs on it and returns the default score 0.5 without scoring any metric.
\<close>

theorem constructor_keeps_empty_metrics:
  "criteria (OutputCriterion_new n d [] ws ms mr) = []
   \<and> fst (evaluate E T (OutputCriterion_new n d [] ws ms mr) out lo) = 0.5"
  by (simp add: evaluate_def OutputCriterion_new_def)

lemma length_metric_scores: "length (metric_scores E T crit out ms lo) = length ms"
  by (induction ms arbitrary: lo) (auto split: prod.splits)

lemma evaluate_loop_folds:
  "fst (evaluate_loop E T crit out ms total_score total_weight lo) =
     (foldl (\<lambda>acc (score, w). float_add E acc (float_mul E score w)) total_score
        (zip (metric_scores E T crit out ms lo) (map (metric_weight crit) ms)),
      foldl (float_add E) total_weight (map (metric_weight crit) ms))"
proof (induction ms arbitrary: total_score total_weight lo)
  case Nil
  show ?case by simp
next
  case (Cons m ms)
  obtain s lo' where e: "evaluate_criterion E T crit m out lo = (s, lo')"
    by (cases "evaluate_criterion E T crit m out lo")
  show ?case
    using Cons.IH[of "float_add E total_score (float_mul E s (metric_weight crit m))"
        "float_add E total_weight (metric_weight crit m)" lo'] e
    by simp
qed

lemma evaluate_folds:
  "fst (evaluate E T crit out lo) =
     (if criteria crit = [] then 0.5
      else (let scores = metric_scores E T crit out (criteria crit) lo;
                ws = map (metric_weight crit) (criteria crit);
                total_score = foldl (\<lambda>acc (score, w). float_add E acc (float_mul E score w)) 0
                                (zip scores ws);
                total_weight = foldl (float_add E) 0 ws
            in if total_weight > 0 then float_div E total_score total_weight else 0))"
  using evaluate_loop_folds[of E T crit out "criteria crit" 0 0 lo]
  by (cases "evaluate_loop E T crit out (criteria crit) 0 0 lo") (auto simp: evaluate_def Let_def)

lemma rounded_quotient:
  "round_double (round_double (round_double (double_0_7 * double_0_1)) / round_double double_0_1) =
     double_below_0_7"
  by code_simp

lemma rounded_weight: "round_double double_0_1 = double_0_1"
  by code_simp

lemma doubles_differ: "double_below_0_7 \<noteq> double_0_7 \<and> double_0_1 > 0"
  by (simp add: double_below_0_7_def double_0_7_def double_0_1_def)

lemma one_metric_scores:
  "metric_scores env_double scoring_transport one_metric_criterion (PStr [])
     (criteria one_metric_criterion) (Some (llm_fresh 3)) = [double_0_7]"
  by (simp add: evaluate_criterion_def llm_evaluation_def generate_def update_token_usage_def
      one_metric_criterion_def OutputCriterion_new_def accuracy_metric_def env_double_def env0_def
      scoring_transport_def llm_fresh_def double_0_7_def)

text \<open>
  C6, amended. For every criterion and output: with no metrics the score is the default
  0.5. With at least one metric the score is the weighted mean of the per-metric scores as
  the runtime computes it in floating point: \<open>total_score\<close> and \<open>total_weight\<close> are
  accumulated from 0.0 in the order of the metrics, by \<open>score * weight\<close> and by
  \<open>weight\<close> (the weight of a metric being the override of the criterion if present, else
  the weight of the metric), each operation rounding its result, and the score is the rounded
  quotient \<open>total_score / total_weight\<close> when \<open>total_weight\<close> is positive, and 0.0
  otherwise.
\<close>

theorem evaluate_weighted_mean:
  "fst (evaluate E T crit out lo) =
     (if criteria crit = [] then 0.5
      else (let scores = metric_scores E T crit out (criteria crit) lo;
                ws = map (metric_weight crit) (criteria crit);
                total_score = foldl (\<lambda>acc (score, w). float_add E acc (float_mul E score w)) 0
                                (zip scores ws);
                total_weight = foldl (float_add E) 0 ws
            in if total_weight > 0 then float_div E total_score total_weight else 0))"
  using evaluate_loop_folds[of E T crit out "criteria crit" 0 0 lo]
  by (cases "evaluate_loop E T crit out (criteria crit) 0 0 lo") (auto simp: evaluate_def Let_def)

lemma one_metric_run:
  "fst (evaluate env_double scoring_transport one_metric_criterion (PStr []) (Some (llm_fresh 3))) =
     double_below_0_7"
proof -
  have c: "criteria one_metric_criterion = [accuracy_metric\<lparr>weight := double_0_1\<rparr>]"
    by (simp add: one_metric_criterion_def OutputCriterion_new_def)
  have w: "metric_weight one_metric_criterion (accuracy_metric\<lparr>weight := double_0_1\<rparr>) = double_0_1"
    by (simp add: metric_weight_def one_metric_criterion_def OutputCriterion_new_def)
  have ops: "float_add env_double = (\<lambda>x y. round_double (x + y))"
    "float_mul env_double = (\<lambda>x y. round_double (x * y))"
    "float_div env_double = (\<lambda>x y. round_double (x / y))"
    by (simp_all add: env_double_def)
  have pos: "round_double double_0_1 > 0"
    using rounded_weight doubles_differ by simp
  show ?thesis
    unfolding evaluate_folds one_metric_scores
    by (simp add: c w ops pos rounded_quotient Let_def)
qed

text \<open>
  C6 as stated fails on the code, in two ways. With no metrics at all the total weight is 0,
  and the score is the default 0.5, not 0.0. And the score of a criterion with metrics is
  computed in double precision: for one metric of weight 0.1 whose score is 0.7, the score of
  the criterion is 0.6999999999999998, which is neither the weighted mean nor the arithmetic
  mean of the per-metric scores (both are 0.7), although the weight is positive.
\<close>

theorem score_is_not_the_weighted_mean:
  "sum_list (map (metric_weight empty_criterion) (criteria empty_criterion)) = 0
   \<and> fst (evaluate env0 failing_transport empty_criterion (PStr []) None) = 0.5
   \<and> fst (evaluate env0 failing_transport empty_criterion (PStr []) None) \<noteq> 0
   \<and> metric_scores env_double scoring_transport one_metric_criterion (PStr [])
        (criteria one_metric_criterion) (Some (llm_fresh 3)) = [double_0_7]
   \<and> map (metric_weight one_metric_criterion) (criteria one_metric_criterion) = [double_0_1]
   \<and> double_0_1 > 0
   \<and> fst (evaluate env_double scoring_transport one_metric_criterion (PStr []) (Some (llm_fresh 3)))
        = double_below_0_7
   \<and> double_below_0_7 \<noteq> sum_list (map2 (*) [double_0_7] [double_0_1]) / sum_list [double_0_1]
   \<and> double_below_0_7 \<noteq> sum_list [double_0_7] / real (length [double_0_7])"
proof -
  have e: "sum_list (map (metric_weight empty_criterion) (criteria empty_criterion)) = 0
     \<and> fst (evaluate env0 failing_transport empty_criterion (PStr []) None) = 0.5
     \<and> fst (evaluate env0 failing_transport empty_criterion (PStr []) None) \<noteq> 0"
    by (simp add: evaluate_def empty_criterion_def OutputCriterion_new_def)
  have w: "map (metric_weight one_metric_criterion) (criteria one_metric_criterion) = [double_0_1]"
    by (simp add: metric_weight_def one_metric_criterion_def OutputCriterion_new_def)
  have d: "double_below_0_7 \<noteq> sum_list (map2 (*) [double_0_7] [double_0_1]) / sum_list [double_0_1]"
    and d': "double_below_0_7 \<noteq> sum_list [double_0_7] / real (length [double_0_7])"
    using doubles_differ by simp_all
  from e w d d' one_metric_scores one_metric_run doubles_differ show ?thesis by blast
qed

text \<open>
  Where the arithmetic of the runtime does not round, the score of a criterion with metrics
  is the weighted mean of the per-metric scores when the total weight is positive.
\<close>

lemma evaluate_exact_arithmetic:
  assumes add: "float_add E = (\<lambda>x y. x + y)" and mul: "float_mul E = (\<lambda>x y. x * y)"
    and div: "float_div E = (\<lambda>x y. x / y)"
  shows "fst (evaluate E T crit out lo) =
     (if criteria crit = [] then 0.5
      else if sum_list (map (metric_weight crit) (criteria crit)) > 0
        then sum_list (map2 (*) (metric_scores E T crit out (criteria crit) lo)
                         (map (metric_weight crit) (criteria crit)))
               / sum_list (map (metric_weight crit) (criteria crit))
        else 0)"
proof -
  have f1: "foldl (\<lambda>acc (score, w). acc + score * w) a xs = a + sum_list (map (\<lambda>(s, w). s * w) xs)"
    for a :: real and xs
    by (induction xs arbitrary: a) (auto simp: algebra_simps)
  have f2: "foldl (\<lambda>x y. x + y) a ws = a + sum_list ws" for a :: real and ws
    by (induction ws arbitrary: a) (auto simp: algebra_simps)
  show ?thesis
    unfolding evaluate_folds add mul div f1 f2 by (simp add: Let_def)
qed


section \<open>Properties of the agent execution engine\<close>

lemmas run_defs =
  execute_def execute_body_def accept_or_retry_def optimize_and_retry_def optimize_prompt_def
  evaluate_quality_def evaluate_def evaluate_criterion_def llm_evaluation_def generate_output_def
  build_prompt_def validate_input_def validate_output_def validate_against_def
  generate_with_retry_def generate_def update_token_usage_def item_def py_div_def
  update_performance_metrics_def update_averages_def update_average_def update_token_metrics_def
  AgentBase_init_def reset_metrics_def reset_token_usage_def agent_config_def OutputCriterion_new_def
  accuracy_metric_def metric_weight_def scripted_transport_def llm_fresh_def env0_def clock0_def
  ustr_of_def upt_rec Let_def

lemma low_score_run_facts:
  "low_score_run opt = (r, a)
   \<Longrightarrow> r = Inr (ustr_of ''out'' @ [if opt then 50 else 49])
     \<and> length (filter is_generation (trace (llm a))) = 2
     \<and> performance_metrics a ''total_executions'' = Some 1
     \<and> performance_metrics a ''average_score'' = Some 0
     \<and> retry_count a = 1
     \<and> status a = BUSY
     \<and> map quality_score (execution_history a) = [0.3]"
  by (cases opt) (auto simp add: low_score_run_def run_defs)

text \<open>
  C1 fails on the code. On the agent of the scenario (\<open>max_retries = 2\<close>, every output
  scored 0.3, \<open>min_score = 0.8\<close>) one call of \<open>execute\<close> asks the backend for an output
  twice, not three times: once at first, and once in \<open>_optimize_and_retry\<close>, whose output
  is returned as it is, neither validated nor scored (one score, 0.3, is recorded). With
  auto-optimization the returned text is the third answer of the backend, the second being
  the improved task description. \<open>total_executions\<close> is 1.
\<close>

theorem low_score_run_generates_twice:
  "length (filter is_generation (trace (llm (snd (low_score_run opt))))) = 2
   \<and> fst (low_score_run opt) = Inr (ustr_of ''out'' @ [if opt then 50 else 49])
   \<and> map quality_score (execution_history (snd (low_score_run opt))) = [0.3]
   \<and> performance_metrics (snd (low_score_run opt)) ''total_executions'' = Some 1"
  using low_score_run_facts[of opt "fst (low_score_run opt)" "snd (low_score_run opt)"]
  by simp

text \<open>
  C8 fails on the code. \<open>execute\<close> resets \<open>retry_count\<close> on the path that accepts an
  output only; it does not reset it at its start, and the repair path returns with the
  counter incremented and the status still \<open>BUSY\<close>. After the call on the agent with
  \<open>max_retries = 2\<close> and every output scored 0.3 returns, \<open>retry_count\<close> is 1.
\<close>

theorem low_score_run_keeps_retry_count:
  "(\<exists>out. fst (low_score_run opt) = Inr out)
   \<and> retry_count (snd (low_score_run opt)) = 1
   \<and> status (snd (low_score_run opt)) = BUSY"
  using low_score_run_facts[of opt "fst (low_score_run opt)" "snd (low_score_run opt)"]
  by simp

text \<open>
  The repair path in general: whenever the score is below \<open>min_score\<close> and retries remain,
  the call ends in \<open>_optimize_and_retry\<close> with the counter incremented, and with the status
  and the metrics as they were.
\<close>

lemma accept_or_retry_repair:
  assumes "score < min_score (output_criterion (config a))"
    and "retry_count a < max_retries (config a)"
    and "accept_or_retry E T clk input_data out score a = (r, a')"
  shows "retry_count a' = retry_count a + 1 \<and> status a' = status a
       \<and> performance_metrics a' = performance_metrics a"
  using assms
  by (auto simp: accept_or_retry_def optimize_and_retry_def optimize_prompt_def Let_def
      split: prod.splits sum.splits if_splits)

lemma fresh_metrics_key_error:
  "n \<noteq> 0 \<Longrightarrow>
   fst (update_performance_metrics cfg score rt tokens
          ((performance_metrics (AgentBase_init cfg l))(''total_executions'' \<mapsto> n))) =
     Inl (KeyError ''total_tokens_used'')"
  by (simp add: update_performance_metrics_def update_averages_def update_average_def
      update_token_metrics_def item_def py_div_def AgentBase_init_def)

lemma fresh_accept_run_facts:
  "fresh_accept_run opt = (r, a)
   \<Longrightarrow> r = Inl (KeyError ''total_tokens_used'')
     \<and> status a = ERROR
     \<and> performance_metrics a ''average_score'' = Some 0.3
     \<and> performance_metrics a ''total_tokens_used'' = None"
  by (auto simp add: fresh_accept_run_def run_defs)

text \<open>
  C2 fails on the code. The dictionary that \<open>__init__\<close> builds has no key
  \<open>total_tokens_used\<close> (the one \<open>reset_metrics\<close> builds has it): on an agent that was
  not reset, a call of \<open>execute\<close> that accepts its output updates the two running means,
  then raises \<open>KeyError\<close> at the token total; the agent is left in status \<open>ERROR\<close> and
  the output is not returned.
\<close>

theorem fresh_agent_accept_raises:
  "fst (fresh_accept_run opt) = Inl (KeyError ''total_tokens_used'')
   \<and> status (snd (fresh_accept_run opt)) = ERROR
   \<and> performance_metrics (snd (fresh_accept_run opt)) ''average_score'' = Some 0.3"
  using fresh_accept_run_facts[of opt "fst (fresh_accept_run opt)" "snd (fresh_accept_run opt)"]
  by simp

text \<open>
  On a dictionary that has all the keys, the update is the incremental mean for the score and
  the response time, and the token total grows by the tokens used. The mean of tokens per
  execution is the new total divided by \<open>total_executions\<close>; \<open>total_executions\<close> also counts
  the calls that raised or took the repair path, which added nothing to the total.
\<close>

lemma update_performance_metrics_formulas:
  assumes "m ''total_executions'' = Some n" and "n \<noteq> 0"
    and "m ''successful_executions'' = Some k"
    and "m ''average_score'' = Some avg_score"
    and "m ''average_response_time'' = Some avg_time"
    and "m ''total_tokens_used'' = Some tot"
  shows "update_performance_metrics cfg score rt tokens m =
     (Inr (),
      m(''successful_executions'' \<mapsto> (if score \<ge> min_score (output_criterion cfg) then k + 1 else k),
        ''average_score'' \<mapsto> (avg_score * (n - 1) + score) / n,
        ''average_response_time'' \<mapsto> (avg_time * (n - 1) + rt) / n,
        ''total_tokens_used'' \<mapsto> tot + of_int tokens,
        ''average_tokens_per_execution'' \<mapsto> (tot + of_int tokens) / n))"
  using assms
  by (auto simp: update_performance_metrics_def update_averages_def update_average_def
      update_token_metrics_def item_def py_div_def fun_upd_twist)

lemma reset_accept_run_facts:
  "reset_accept_run opt = (r, a)
   \<Longrightarrow> r = Inr (ustr_of ''out0'')
     \<and> status a = IDLE
     \<and> retry_count a = 0
     \<and> performance_metrics a ''average_score'' = Some 0.3
     \<and> performance_metrics a ''total_tokens_used'' = Some 11"
  by (auto simp add: reset_accept_run_def run_defs)

section \<open>Properties of the backend selector\<close>

lemmas factory_defs =
  create_llm_def create_auto_llm_def create_local_llm_def create_cloud_llm_def
  cloud_after_construction_def check_local_health_def check_cloud_health_def check_health_def
  get_current_mode_def new_object_def set_model_name_def


lemma fallback_run:
  "create_llm probe_cloud_only None (factory_auto (Some (ustr_of ''sk''))) [] =
     (Inr (Some (QwenAPILLM 0
        \<lparr>api_key = ustr_of ''sk'',
         base_url = ustr_of ''https://dashscope.aliyuncs.com/compatible-mode/v1'',
         api_model_name = ustr_of ''qwen-plus''\<rparr>)),
      (factory_auto (Some (ustr_of ''sk'')))
        \<lparr>local_llm := Some (QwenLLM 0),
         cloud_llm := Some (QwenAPILLM 0
            \<lparr>api_key = ustr_of ''sk'',
             base_url = ustr_of ''https://dashscope.aliyuncs.com/compatible-mode/v1'',
             api_model_name = ustr_of ''qwen-plus''\<rparr>),
         current_mode := Some ''cloud''\<rparr>,
      [\<lparr>model_name = ustr_of ''qwen-plus'', temperature = 0.7, max_tokens = 4096\<rparr>])"
  by (simp add: factory_defs factory_auto_def LLMFactory_init_def probe_cloud_only_def Let_def ustr_of_def)


text \<open>
  Without an API key and without a cloud instance, no cloud instance is constructed, the
  selector's check of the cloud backend is false, and \<open>create_llm\<close> raises.
\<close>

lemma no_credential_no_cloud_check:
  "fst (create_llm probe_cloud_only None (factory_auto None) []) = Inl (Exception lit_both_unavailable)
   \<and> \<not> check_cloud_health probe_cloud_only (fst (snd (create_llm probe_cloud_only None (factory_auto None) [])))"
  by (simp add: factory_defs factory_auto_def LLMFactory_init_def probe_cloud_only_def Let_def)


text \<open>
  After the fallback the local and the cloud instance hold the same \<open>LLMConfig\<close> object,
  and its model name is the cloud model name.
\<close>

lemma fallback_shares_config:
  "create_llm probe_cloud_only None (factory_auto (Some (ustr_of ''sk''))) [] = (r, f', h')
   \<Longrightarrow> map_option config_ref (local_llm f') = Some 0
     \<and> map_option config_ref (cloud_llm f') = Some 0
     \<and> map model_name h' = [ustr_of ''qwen-plus'']"
  by (auto simp add: fallback_run)

end
